theory Spec2Isabelle
  imports Main "HOL-Library.Char_ord" "HOL-Library.List_Lexorder"
begin

section \<open>JSON documents and interface values\<close>

text \<open>
  The helpers of \<^verbatim>\<open>go-http-utils\<close> hand a \<^verbatim>\<open>response.Response\<close> to
  \<^verbatim>\<open>json.NewEncoder(w).Encode\<close>. The encoder is modelled at the level of the JSON
  document it writes: an object is the list of its members in the order of the struct's
  fields. How a string is escaped and the newline that ends each document are matters of
  \<^verbatim>\<open>encoding/json\<close> and are not part of the model.
\<close>

datatype json =
    JNull
  | JBool bool
  | JNumber string
  | JString string
  | JArray "json list"
  | JObject "(string \<times> json) list"

text \<open>
  A value of Go's type \<^verbatim>\<open>any\<close> is the nil interface, or a dynamic value. A dynamic
  value is identified with the JSON value that \<^verbatim>\<open>json.Marshal\<close> makes of it
  (a nil slice, nil map or nil pointer held in the interface marshals to \<^verbatim>\<open>null\<close>),
  or it is a value that \<^verbatim>\<open>json.Marshal\<close> rejects (a channel, a function, NaN).
\<close>

datatype any =
    nil
  | Marshals json
  | Unsupported

section \<open>Package apperr\<close>

record HTTPError =
  Code :: int
  Message :: string
  Data :: any

text \<open>The method \<^verbatim>\<open>func (e HTTPError) Error() string\<close>.\<close>

definition HTTPError_Error :: "HTTPError \<Rightarrow> string" where
  "HTTPError_Error e = Message e"

text \<open>
  \<^verbatim>\<open>New\<close> and \<^verbatim>\<open>NewWithData\<close> return \<^verbatim>\<open>*HTTPError\<close>. Nothing in the
  repository compares two such pointers or writes through one, so a non-nil pointer is
  modelled by the struct it points to.
\<close>

definition New :: "int \<Rightarrow> string \<Rightarrow> HTTPError" where
  "New code msg = \<lparr>Code = code, Message = msg, Data = nil\<rparr>"

definition NewWithData :: "int \<Rightarrow> string \<Rightarrow> any \<Rightarrow> HTTPError" where
  "NewWithData code msg data = \<lparr>Code = code, Message = msg, Data = data\<rparr>"

section \<open>Error values\<close>

text \<open>
  The non-nil values of the interface \<^verbatim>\<open>error\<close> that reach the helpers:
  a \<^verbatim>\<open>*apperr.HTTPError\<close>, an \<^verbatim>\<open>apperr.HTTPError\<close> held by value (the method
  \<^verbatim>\<open>Error\<close> has a value receiver, so both implement the interface), an error of
  another type that wraps nothing, an error wrapping one error
  (\<^verbatim>\<open>Unwrap() error\<close>) and an error wrapping several (\<^verbatim>\<open>Unwrap() []error\<close>).
  The string of the last three is the text their \<^verbatim>\<open>Error()\<close> returns. A variable of
  type \<^verbatim>\<open>error\<close> is an \<open>error option\<close>, \<open>None\<close> being nil. A nil
  \<^verbatim>\<open>*HTTPError\<close> stored in an interface and error types with an \<^verbatim>\<open>As\<close> method of
  their own are outside the model.
\<close>

datatype error =
    PtrHTTPError HTTPError
  | ValHTTPError HTTPError
  | Opaque string
  | Wrapped string error
  | Joined string "error list"

fun error_Error :: "error \<Rightarrow> string" where
  "error_Error (PtrHTTPError e) = HTTPError_Error e"
| "error_Error (ValHTTPError e) = HTTPError_Error e"
| "error_Error (Opaque s) = s"
| "error_Error (Wrapped s e) = s"
| "error_Error (Joined s es) = s"

text \<open>
  \<^verbatim>\<open>errors.As(err, &httpErr)\<close> with \<^verbatim>\<open>httpErr\<close> of type \<^verbatim>\<open>*apperr.HTTPError\<close>:
  the first error of the chain, depth first, whose dynamic type is
  \<^verbatim>\<open>*apperr.HTTPError\<close>. \<open>as\<close> is the loop of the standard library over one error,
  \<open>as_list\<close> its loop over the result of \<^verbatim>\<open>Unwrap() []error\<close>.
\<close>

fun as :: "error \<Rightarrow> HTTPError option"
  and as_list :: "error list \<Rightarrow> HTTPError option" where
  "as (PtrHTTPError e) = Some e"
| "as (ValHTTPError e) = None"
| "as (Opaque s) = None"
| "as (Wrapped s e) = as e"
| "as (Joined s es) = as_list es"
| "as_list [] = None"
| "as_list (e # es) = (case as e of Some h \<Rightarrow> Some h | None \<Rightarrow> as_list es)"

definition errors_As :: "error option \<Rightarrow> HTTPError option" where
  "errors_As err = (case err of None \<Rightarrow> None | Some e \<Rightarrow> as e)"

text \<open>A run-time panic of the Go program.\<close>

datatype panic = NilPointerDereference

section \<open>Package response\<close>

record Response =
  Status :: string
  Error :: string
  Data :: any

definition StatusOK :: string where
  "StatusOK = ''OK''"

definition StatusError :: string where
  "StatusError = ''Error''"

definition OK :: Response where
  "OK = \<lparr>Status = StatusOK, Error = [], Data = nil\<rparr>"

definition DataOK :: "any \<Rightarrow> Response" where
  "DataOK data = \<lparr>Status = StatusOK, Error = [], Data = data\<rparr>"

definition DataWithError :: "string \<Rightarrow> any \<Rightarrow> Response" where
  "DataWithError msg data = \<lparr>Status = StatusError, Error = msg, Data = data\<rparr>"

text \<open>The function \<^verbatim>\<open>response.Error\<close>; the name \<open>Error\<close> is the field's.\<close>

definition response_Error :: "string \<Rightarrow> Response" where
  "response_Error msg = \<lparr>Status = StatusError, Error = msg, Data = nil\<rparr>"

text \<open>
  The JSON document of a \<^verbatim>\<open>Response\<close>, as its struct tags say:
  \<^verbatim>\<open>json:"status"\<close> is always a member, \<^verbatim>\<open>json:"error,omitempty"\<close> is left out
  when the string is empty and \<^verbatim>\<open>json:"data,omitempty"\<close> when the interface is nil.
  \<open>None\<close> is the error \<^verbatim>\<open>json.Marshal\<close> returns for a value it rejects.
\<close>

definition Marshal_Response :: "Response \<Rightarrow> json option" where
  "Marshal_Response v =
     (case Response.Data v of
        Unsupported \<Rightarrow> None
      | nil \<Rightarrow> Some (JObject ([(''status'', JString (Status v))]
                 @ (if Error v = [] then [] else [(''error'', JString (Error v))])))
      | Marshals d \<Rightarrow> Some (JObject ([(''status'', JString (Status v))]
                 @ (if Error v = [] then [] else [(''error'', JString (Error v))])
                 @ [(''data'', d)])))"

section \<open>The logger\<close>

text \<open>
  A \<^verbatim>\<open>*slog.Logger\<close> is modelled by the records handed to it, oldest first. An
  attribute is a key and the string it carries.
\<close>

datatype Level = LevelInfo | LevelError

record Record =
  Level :: Level
  Msg :: string
  Attrs :: "(string \<times> string) list"

type_synonym Logger = "Record list"

definition log_Error :: "Logger \<Rightarrow> string \<Rightarrow> (string \<times> string) list \<Rightarrow> Logger" where
  "log_Error log msg attrs = log @ [\<lparr>Level = LevelError, Msg = msg, Attrs = attrs\<rparr>]"

definition log_Info :: "Logger \<Rightarrow> string \<Rightarrow> (string \<times> string) list \<Rightarrow> Logger" where
  "log_Info log msg attrs = log @ [\<lparr>Level = LevelInfo, Msg = msg, Attrs = attrs\<rparr>]"

section \<open>The response writer and the request\<close>

text \<open>
  An \<^verbatim>\<open>http.ResponseWriter\<close> is modelled as a recorder: the header map the handler
  edits, whether the status line has been written, the status code and the headers that
  went out with it, and the JSON documents written to the body. As the interface
  documents, the first \<^verbatim>\<open>WriteHeader\<close> fixes the status and the headers, a later
  one changes nothing, and a \<^verbatim>\<open>Write\<close> before any \<^verbatim>\<open>WriteHeader\<close> sends
  status 200. The model records what the helpers hand to the writer. What a server then
  does with it belongs to the transport and is not modelled: \<^verbatim>\<open>net/http\<close> refuses
  a status code outside 100 to 999 and sends no body with the codes 204 and 304, and a
  write to a closed connection fails. \<open>NewRecorder\<close> is a writer nothing has been
  written to, as \<^verbatim>\<open>httptest.NewRecorder()\<close> returns it.
\<close>

record ResponseWriter =
  header :: "string \<rightharpoonup> string list"
  wroteHeader :: bool
  status :: int
  snapHeader :: "string \<rightharpoonup> string list"
  body :: "json list"

definition NewRecorder :: ResponseWriter where
  "NewRecorder = \<lparr>header = Map.empty, wroteHeader = False, status = 200,
                   snapHeader = Map.empty, body = []\<rparr>"

definition Header_Set :: "ResponseWriter \<Rightarrow> string \<Rightarrow> string \<Rightarrow> ResponseWriter" where
  "Header_Set w k v = w\<lparr>header := (header w)(k \<mapsto> [v])\<rparr>"

definition WriteHeader :: "ResponseWriter \<Rightarrow> int \<Rightarrow> ResponseWriter" where
  "WriteHeader w code =
     (if wroteHeader w then w
      else w\<lparr>wroteHeader := True, status := code, snapHeader := header w\<rparr>)"

definition Write :: "ResponseWriter \<Rightarrow> json \<Rightarrow> ResponseWriter" where
  "Write w doc =
     (let w' = (if wroteHeader w then w else WriteHeader w 200)
      in w'\<lparr>body := body w' @ [doc]\<rparr>)"

text \<open>
  \<^verbatim>\<open>json.NewEncoder(w).Encode(v)\<close> for a \<^verbatim>\<open>Response\<close>: the document is
  marshalled first and written only if that succeeds; otherwise the error is returned
  and nothing is written.
\<close>

definition Encode :: "ResponseWriter \<Rightarrow> Response \<Rightarrow> ResponseWriter \<times> error option" where
  "Encode w v =
     (case Marshal_Response v of
        None \<Rightarrow> (w, Some (Opaque ''json: unsupported value''))
      | Some doc \<Rightarrow> (Write w doc, None))"

record Request =
  Body :: string

definition http_StatusOK :: int where
  "http_StatusOK = 200"

definition http_StatusBadRequest :: int where
  "http_StatusBadRequest = 400"

definition http_StatusInternalServerError :: int where
  "http_StatusInternalServerError = 500"

text \<open>\<^verbatim>\<open>response.Err\<close>. The call \<^verbatim>\<open>err.Error()\<close> panics on a nil \<^verbatim>\<open>err\<close>.\<close>

definition Err ::
  "ResponseWriter \<Rightarrow> Request \<Rightarrow> Logger \<Rightarrow> string \<Rightarrow> error option \<Rightarrow> string \<Rightarrow> int
     \<Rightarrow> panic + ResponseWriter \<times> Logger" where
  "Err w r log op err msg httpStatus =
     (case err of
        None \<Rightarrow> Inl NilPointerDereference
      | Some e \<Rightarrow>
          (let log1 = log_Error log msg [(''op'', op), (''err'', error_Error e)];
               w1 = Header_Set w ''Content-Type'' ''application/json'';
               w2 = WriteHeader w1 httpStatus;
               (w3, _) = Encode w2 (response_Error msg)
           in Inr (w3, log1)))"

section \<open>Package httputils\<close>

text \<open>
  \<^verbatim>\<open>writeJSON\<close>. Its parameter \<^verbatim>\<open>data\<close> has type \<^verbatim>\<open>any\<close>; every call in
  the package passes a \<^verbatim>\<open>response.Response\<close>. The error of the encoder is
  discarded, as in the source.
\<close>

definition writeJSON :: "ResponseWriter \<Rightarrow> int \<Rightarrow> Response \<Rightarrow> ResponseWriter" where
  "writeJSON w st data =
     (let w1 = Header_Set w ''Content-Type'' ''application/json'';
          w2 = WriteHeader w1 st;
          (w3, _) = Encode w2 data
      in w3)"

text \<open>
  \<^verbatim>\<open>DecodeRequest[T]\<close>. The type parameter is \<open>'t\<close>; \<open>zero\<close> is the zero value of
  \<^verbatim>\<open>T\<close> (\<^verbatim>\<open>var req T\<close>) and \<open>Decode\<close> is
  \<^verbatim>\<open>json.NewDecoder(r.Body).Decode(&req)\<close> for that type: from the body and the
  value \<^verbatim>\<open>req\<close> holds it gives the error it returns and what it leaves in \<^verbatim>\<open>req\<close>.
\<close>

definition DecodeRequest ::
  "(string \<Rightarrow> 't \<Rightarrow> error option \<times> 't) \<Rightarrow> 't
     \<Rightarrow> ResponseWriter \<Rightarrow> Request \<Rightarrow> Logger \<Rightarrow> string
     \<Rightarrow> panic + ('t \<times> bool) \<times> ResponseWriter \<times> Logger" where
  "DecodeRequest Decode zero w r log op =
     (let (err, req) = Decode (Body r) zero
      in case err of
           Some e \<Rightarrow>
             (let log1 = log_Error log ''failed to decode request body''
                           [(''op'', op), (''err'', error_Error e)]
              in case Err w r log1 op err ''invalid request payload'' http_StatusBadRequest of
                   Inl p \<Rightarrow> Inl p
                 | Inr (w', log2) \<Rightarrow> Inr ((req, False), w', log2))
         | None \<Rightarrow> Inr ((req, True), w, log))"

text \<open>
  \<^verbatim>\<open>ValidateRequest[T]\<close>. \<open>validate_Struct\<close> is \<^verbatim>\<open>validate.Struct\<close> of the
  validator library for the type \<^verbatim>\<open>T\<close>: the error it returns, nil when no declared
  constraint is violated.
\<close>

definition ValidateRequest ::
  "('t \<Rightarrow> error option)
     \<Rightarrow> ResponseWriter \<Rightarrow> Request \<Rightarrow> Logger \<Rightarrow> string \<Rightarrow> 't
     \<Rightarrow> panic + bool \<times> ResponseWriter \<times> Logger" where
  "ValidateRequest validate_Struct w r log op req =
     (case validate_Struct req of
        Some e \<Rightarrow>
          (let log1 = log_Error log ''validation failed''
                        [(''op'', op), (''err'', error_Error e),
                         (''validation_errors'', error_Error e)]
           in case Err w r log1 op (Some e) ''invalid input data'' http_StatusBadRequest of
                Inl p \<Rightarrow> Inl p
              | Inr (w', log2) \<Rightarrow> Inr (False, w', log2))
      | None \<Rightarrow> Inr (True, w, log))"

definition SendOK ::
  "ResponseWriter \<Rightarrow> Request \<Rightarrow> Logger \<Rightarrow> string \<Rightarrow> ResponseWriter \<times> Logger" where
  "SendOK w r log op =
     (let w' = writeJSON w http_StatusOK OK;
          log' = log_Info log ''operation successful'' [(''op'', op)]
      in (w', log'))"

definition SendDataOK ::
  "ResponseWriter \<Rightarrow> Request \<Rightarrow> Logger \<Rightarrow> string \<Rightarrow> any \<Rightarrow> ResponseWriter \<times> Logger" where
  "SendDataOK w r log op data =
     (let w' = writeJSON w http_StatusOK (DataOK data);
          log' = log_Info log ''operation successful'' [(''op'', op)]
      in (w', log'))"

text \<open>
  \<^verbatim>\<open>WriteHTTPError\<close>. When \<^verbatim>\<open>errors.As\<close> fails, the argument
  \<^verbatim>\<open>err.Error()\<close> of the log call is evaluated first and panics on a nil \<^verbatim>\<open>err\<close>.
\<close>

definition WriteHTTPError ::
  "ResponseWriter \<Rightarrow> Logger \<Rightarrow> string \<Rightarrow> error option \<Rightarrow> panic + ResponseWriter \<times> Logger" where
  "WriteHTTPError w log op err =
     (case errors_As err of
        Some httpErr \<Rightarrow>
          (let log1 = log_Error log ''handled error''
                        [(''op'', op), (''err'', HTTPError_Error httpErr)]
           in if HTTPError.Data httpErr \<noteq> nil
              then Inr (writeJSON w (Code httpErr)
                          (DataWithError (Message httpErr) (HTTPError.Data httpErr)), log1)
              else Inr (writeJSON w (Code httpErr) (response_Error (Message httpErr)), log1))
      | None \<Rightarrow>
          (case err of
             None \<Rightarrow> Inl NilPointerDereference
           | Some e \<Rightarrow>
               (let log1 = log_Error log ''internal error''
                             [(''op'', op), (''err'', error_Error e)]
                in Inr (writeJSON w http_StatusInternalServerError
                          (response_Error ''internal server error''), log1))))"

section \<open>The JSON decoder of a request\<close>

text \<open>
  \<^verbatim>\<open>json.NewDecoder(r.Body).Decode(&req)\<close> belongs to \<^verbatim>\<open>encoding/json\<close>, not to
  the repository. It works in two steps. \<^verbatim>\<open>Decoder.readValue\<close> runs the scanner of
  the package over the bytes of the stream until the first JSON value is complete and
  stops there; the bytes after that value are left unread. The bytes of the value are then
  unmarshalled into the target. The first step is modelled here byte by byte, after the
  state machine of the package; the second depends on the target type \<^verbatim>\<open>T\<close> and
  is a parameter.

  A scanner holds the step function to apply to the next byte, whether the top-level value
  has ended, the stack of objects and arrays that are open (innermost first) and the
  syntax error it has met, of which only the context is kept.
\<close>

datatype step =
    stateBeginValueOrEmpty | stateBeginValue | stateBeginStringOrEmpty | stateBeginString
  | stateEndValue | stateEndTop
  | stateInString | stateInStringEsc | stateInStringEscU | stateInStringEscU1
  | stateInStringEscU12 | stateInStringEscU123
  | stateNeg | state1 | state0 | stateDot | stateDot0 | stateE | stateESign | stateE0
  | stateT | stateTr | stateTru | stateF | stateFa | stateFal | stateFals
  | stateN | stateNu | stateNul
  | stateError

datatype parse = parseObjectKey | parseObjectValue | parseArrayValue

datatype scan =
    scanContinue | scanBeginLiteral | scanBeginObject | scanObjectKey | scanObjectValue
  | scanEndObject | scanBeginArray | scanArrayValue | scanEndArray | scanSkipSpace
  | scanEnd | scanError

record scanner =
  step :: step
  endTop :: bool
  parseState :: "parse list"
  err :: "string option"

definition reset :: scanner where
  "reset = \<lparr>step = stateBeginValue, endTop = False, parseState = [], err = None\<rparr>"

definition isSpace :: "char \<Rightarrow> bool" where
  "isSpace c \<longleftrightarrow> c = CHR '' '' \<or> c = CHR 0x09 \<or> c = CHR 0x0D \<or> c = CHR 0x0A"

definition isdigit :: "char \<Rightarrow> bool" where
  "isdigit c \<longleftrightarrow> c \<in> set ''0123456789''"

definition ishex :: "char \<Rightarrow> bool" where
  "ishex c \<longleftrightarrow> c \<in> set ''0123456789abcdefABCDEF''"

text \<open>\<^verbatim>\<open>scanner.error\<close>: the scanner records the error and stays in \<open>stateError\<close>.\<close>

definition scan_error :: "scanner \<Rightarrow> string \<Rightarrow> scan \<times> scanner" where
  "scan_error s context = (scanError, s\<lparr>step := stateError, err := Some context\<rparr>)"

definition maxNestingDepth :: nat where
  "maxNestingDepth = 10000"

definition pushParseState :: "scanner \<Rightarrow> parse \<Rightarrow> scan \<Rightarrow> scan \<times> scanner" where
  "pushParseState s newParseState successState =
     (let s' = s\<lparr>parseState := newParseState # parseState s\<rparr>
      in if length (parseState s') \<le> maxNestingDepth then (successState, s')
         else scan_error s' ''exceeded max depth'')"

definition popParseState :: "scanner \<Rightarrow> scanner" where
  "popParseState s =
     (let ps = tl (parseState s)
      in if ps = [] then s\<lparr>parseState := ps, step := stateEndTop, endTop := True\<rparr>
         else s\<lparr>parseState := ps, step := stateEndValue\<rparr>)"

text \<open>
  \<^verbatim>\<open>stateEndTop\<close> answers \<open>scanEnd\<close> for every byte; for a byte that is not a
  space it also records an error, which only a further step would report.
\<close>

definition stateEndTop_fn :: "scanner \<Rightarrow> char \<Rightarrow> scan \<times> scanner" where
  "stateEndTop_fn s c =
     (if \<not> isSpace c then (scanEnd, snd (scan_error s ''after top-level value''))
      else (scanEnd, s))"

definition stateEndValue_fn :: "scanner \<Rightarrow> char \<Rightarrow> scan \<times> scanner" where
  "stateEndValue_fn s c =
     (case parseState s of
        [] \<Rightarrow> stateEndTop_fn (s\<lparr>step := stateEndTop, endTop := True\<rparr>) c
      | ps # rest \<Rightarrow>
          if isSpace c then (scanSkipSpace, s\<lparr>step := stateEndValue\<rparr>)
          else (case ps of
                  parseObjectKey \<Rightarrow>
                    if c = CHR '':'' then
                      (scanObjectKey,
                       s\<lparr>parseState := parseObjectValue # rest, step := stateBeginValue\<rparr>)
                    else scan_error s ''after object key''
                | parseObjectValue \<Rightarrow>
                    if c = CHR '','' then
                      (scanObjectValue,
                       s\<lparr>parseState := parseObjectKey # rest, step := stateBeginString\<rparr>)
                    else if c = CHR ''}'' then (scanEndObject, popParseState s)
                    else scan_error s ''after object key:value pair''
                | parseArrayValue \<Rightarrow>
                    if c = CHR '','' then (scanArrayValue, s\<lparr>step := stateBeginValue\<rparr>)
                    else if c = CHR '']'' then (scanEndArray, popParseState s)
                    else scan_error s ''after array element''))"

definition stateBeginValue_fn :: "scanner \<Rightarrow> char \<Rightarrow> scan \<times> scanner" where
  "stateBeginValue_fn s c =
     (if isSpace c then (scanSkipSpace, s)
      else if c = CHR ''{'' then
        pushParseState (s\<lparr>step := stateBeginStringOrEmpty\<rparr>) parseObjectKey scanBeginObject
      else if c = CHR ''['' then
        pushParseState (s\<lparr>step := stateBeginValueOrEmpty\<rparr>) parseArrayValue scanBeginArray
      else if c = CHR 0x22 then (scanBeginLiteral, s\<lparr>step := stateInString\<rparr>)
      else if c = CHR ''-'' then (scanBeginLiteral, s\<lparr>step := stateNeg\<rparr>)
      else if c = CHR ''0'' then (scanBeginLiteral, s\<lparr>step := state0\<rparr>)
      else if c = CHR ''t'' then (scanBeginLiteral, s\<lparr>step := stateT\<rparr>)
      else if c = CHR ''f'' then (scanBeginLiteral, s\<lparr>step := stateF\<rparr>)
      else if c = CHR ''n'' then (scanBeginLiteral, s\<lparr>step := stateN\<rparr>)
      else if c \<in> set ''123456789'' then (scanBeginLiteral, s\<lparr>step := state1\<rparr>)
      else scan_error s ''looking for beginning of value'')"

definition stateBeginString_fn :: "scanner \<Rightarrow> char \<Rightarrow> scan \<times> scanner" where
  "stateBeginString_fn s c =
     (if isSpace c then (scanSkipSpace, s)
      else if c = CHR 0x22 then (scanBeginLiteral, s\<lparr>step := stateInString\<rparr>)
      else scan_error s ''looking for beginning of object key string'')"

definition state0_fn :: "scanner \<Rightarrow> char \<Rightarrow> scan \<times> scanner" where
  "state0_fn s c =
     (if c = CHR ''.'' then (scanContinue, s\<lparr>step := stateDot\<rparr>)
      else if c = CHR ''e'' \<or> c = CHR ''E'' then (scanContinue, s\<lparr>step := stateE\<rparr>)
      else stateEndValue_fn s c)"

definition stateESign_fn :: "scanner \<Rightarrow> char \<Rightarrow> scan \<times> scanner" where
  "stateESign_fn s c =
     (if isdigit c then (scanContinue, s\<lparr>step := stateE0\<rparr>)
      else scan_error s ''in exponent of numeric literal'')"

text \<open>The states inside a literal: the next byte is the one wanted, or it is an error.\<close>

definition expect :: "scanner \<Rightarrow> char \<Rightarrow> char \<Rightarrow> step \<Rightarrow> string \<Rightarrow> scan \<times> scanner" where
  "expect s c want next context =
     (if c = want then (scanContinue, s\<lparr>step := next\<rparr>) else scan_error s context)"

text \<open>\<^verbatim>\<open>s.step(s, c)\<close>: the step function the scanner holds, applied to the byte.\<close>

definition step_fn :: "scanner \<Rightarrow> char \<Rightarrow> scan \<times> scanner" where
  "step_fn s c =
     (case step s of
        stateBeginValueOrEmpty \<Rightarrow>
          if isSpace c then (scanSkipSpace, s)
          else if c = CHR '']'' then stateEndValue_fn s c
          else stateBeginValue_fn s c
      | stateBeginValue \<Rightarrow> stateBeginValue_fn s c
      | stateBeginStringOrEmpty \<Rightarrow>
          if isSpace c then (scanSkipSpace, s)
          else if c = CHR ''}'' then
            stateEndValue_fn (s\<lparr>parseState := parseObjectValue # tl (parseState s)\<rparr>) c
          else stateBeginString_fn s c
      | stateBeginString \<Rightarrow> stateBeginString_fn s c
      | stateEndValue \<Rightarrow> stateEndValue_fn s c
      | stateEndTop \<Rightarrow> stateEndTop_fn s c
      | stateInString \<Rightarrow>
          if c = CHR 0x22 then (scanContinue, s\<lparr>step := stateEndValue\<rparr>)
          else if c = CHR 0x5C then (scanContinue, s\<lparr>step := stateInStringEsc\<rparr>)
          else if (of_char c :: nat) < 32 then scan_error s ''in string literal''
          else (scanContinue, s)
      | stateInStringEsc \<Rightarrow>
          if c \<in> set ''bfnrt/'' \<or> c = CHR 0x5C \<or> c = CHR 0x22 then
            (scanContinue, s\<lparr>step := stateInString\<rparr>)
          else if c = CHR ''u'' then (scanContinue, s\<lparr>step := stateInStringEscU\<rparr>)
          else scan_error s ''in string escape code''
      | stateInStringEscU \<Rightarrow>
          if ishex c then (scanContinue, s\<lparr>step := stateInStringEscU1\<rparr>)
          else scan_error s ''in hexadecimal character escape''
      | stateInStringEscU1 \<Rightarrow>
          if ishex c then (scanContinue, s\<lparr>step := stateInStringEscU12\<rparr>)
          else scan_error s ''in hexadecimal character escape''
      | stateInStringEscU12 \<Rightarrow>
          if ishex c then (scanContinue, s\<lparr>step := stateInStringEscU123\<rparr>)
          else scan_error s ''in hexadecimal character escape''
      | stateInStringEscU123 \<Rightarrow>
          if ishex c then (scanContinue, s\<lparr>step := stateInString\<rparr>)
          else scan_error s ''in hexadecimal character escape''
      | stateNeg \<Rightarrow>
          if c = CHR ''0'' then (scanContinue, s\<lparr>step := state0\<rparr>)
          else if c \<in> set ''123456789'' then (scanContinue, s\<lparr>step := state1\<rparr>)
          else scan_error s ''in numeric literal''
      | state1 \<Rightarrow>
          if isdigit c then (scanContinue, s\<lparr>step := state1\<rparr>) else state0_fn s c
      | state0 \<Rightarrow> state0_fn s c
      | stateDot \<Rightarrow>
          if isdigit c then (scanContinue, s\<lparr>step := stateDot0\<rparr>)
          else scan_error s ''after decimal point in numeric literal''
      | stateDot0 \<Rightarrow>
          if isdigit c then (scanContinue, s)
          else if c = CHR ''e'' \<or> c = CHR ''E'' then (scanContinue, s\<lparr>step := stateE\<rparr>)
          else stateEndValue_fn s c
      | stateE \<Rightarrow>
          if c = CHR ''+'' \<or> c = CHR ''-'' then (scanContinue, s\<lparr>step := stateESign\<rparr>)
          else stateESign_fn s c
      | stateESign \<Rightarrow> stateESign_fn s c
      | stateE0 \<Rightarrow> if isdigit c then (scanContinue, s) else stateEndValue_fn s c
      | stateT \<Rightarrow> expect s c CHR ''r'' stateTr ''in literal true (expecting r)''
      | stateTr \<Rightarrow> expect s c CHR ''u'' stateTru ''in literal true (expecting u)''
      | stateTru \<Rightarrow> expect s c CHR ''e'' stateEndValue ''in literal true (expecting e)''
      | stateF \<Rightarrow> expect s c CHR ''a'' stateFa ''in literal false (expecting a)''
      | stateFa \<Rightarrow> expect s c CHR ''l'' stateFal ''in literal false (expecting l)''
      | stateFal \<Rightarrow> expect s c CHR ''s'' stateFals ''in literal false (expecting s)''
      | stateFals \<Rightarrow> expect s c CHR ''e'' stateEndValue ''in literal false (expecting e)''
      | stateN \<Rightarrow> expect s c CHR ''u'' stateNu ''in literal null (expecting u)''
      | stateNu \<Rightarrow> expect s c CHR ''l'' stateNul ''in literal null (expecting l)''
      | stateNul \<Rightarrow> expect s c CHR ''l'' stateEndValue ''in literal null (expecting l)''
      | stateError \<Rightarrow> (scanError, s))"

text \<open>
  \<^verbatim>\<open>scanner.eof\<close> and \<^verbatim>\<open>checkValid\<close>, by which \<^verbatim>\<open>json.Valid\<close> decides
  whether a whole byte string is one well-formed JSON value with nothing but space
  around it.
\<close>

definition eof :: "scanner \<Rightarrow> scan" where
  "eof s =
     (if err s \<noteq> None then scanError
      else if endTop s then scanEnd
      else if endTop (snd (step_fn s CHR '' '')) then scanEnd
      else scanError)"

fun checkValid :: "scanner \<Rightarrow> string \<Rightarrow> bool" where
  "checkValid s [] = (eof s \<noteq> scanError)"
| "checkValid s (c # cs) =
     (case step_fn s c of
        (scanError, s') \<Rightarrow> False
      | (_, s') \<Rightarrow> checkValid s' cs)"

definition Valid :: "string \<Rightarrow> bool" where
  "Valid data = checkValid reset data"

text \<open>
  \<^verbatim>\<open>Decoder.readValue\<close> on a decoder that has read nothing yet: the number of bytes
  that make up the first value, or the error. \<open>buf\<close> is the whole stream, \<open>scanp\<close> the
  number of bytes scanned, the last argument the bytes still to scan. The scan ends before
  the byte at which the scanner answers \<open>scanEnd\<close>, and just after the \<^verbatim>\<open>}\<close> or
  \<^verbatim>\<open>]\<close> that closes the top-level value; at the end of the stream a space is fed to
  the scanner in place of the missing byte.
\<close>

fun scanValue :: "string \<Rightarrow> scanner \<Rightarrow> nat \<Rightarrow> string \<Rightarrow> error + nat" where
  "scanValue buf s scanp [] =
     (if fst (step_fn s CHR '' '') = scanEnd then Inr scanp
      else if \<exists>c \<in> set buf. \<not> isSpace c then Inl (Opaque ''unexpected EOF'')
      else Inl (Opaque ''EOF''))"
| "scanValue buf s scanp (c # cs) =
     (case step_fn s c of
        (scanEnd, s') \<Rightarrow> Inr scanp
      | (scanEndObject, s') \<Rightarrow>
          (case stateEndValue_fn s' CHR '' '' of
             (scanEnd, s'') \<Rightarrow> Inr (scanp + 1)
           | (_, s'') \<Rightarrow> scanValue buf s'' (scanp + 1) cs)
      | (scanEndArray, s') \<Rightarrow>
          (case stateEndValue_fn s' CHR '' '' of
             (scanEnd, s'') \<Rightarrow> Inr (scanp + 1)
           | (_, s'') \<Rightarrow> scanValue buf s'' (scanp + 1) cs)
      | (scanError, s') \<Rightarrow>
          Inl (Opaque (''invalid character '' @
                 (case err s' of None \<Rightarrow> [] | Some context \<Rightarrow> context)))
      | (_, s') \<Rightarrow> scanValue buf s' (scanp + 1) cs)"

definition readValue :: "string \<Rightarrow> error + nat" where
  "readValue buf = scanValue buf reset 0 buf"

text \<open>
  \<^verbatim>\<open>Decoder.Decode\<close> on a fresh decoder. \<open>unmarshal\<close> stores the bytes of one
  scanned value into the target: from the bytes and the value the target holds it gives
  the error and what the target holds afterwards.
\<close>

definition json_Decode ::
  "(string \<Rightarrow> 't \<Rightarrow> error option \<times> 't) \<Rightarrow> string \<Rightarrow> 't \<Rightarrow> error option \<times> 't" where
  "json_Decode unmarshal buf req =
     (case readValue buf of
        Inl e \<Rightarrow> (Some e, req)
      | Inr n \<Rightarrow> unmarshal (take n buf) req)"

text \<open>
  Unmarshalling one scanned value into the target type \<^verbatim>\<open>struct{}\<close>: an object is
  accepted, each of its members being unknown to the struct and skipped;
  \<^verbatim>\<open>null\<close> is accepted and changes nothing; any other value is an
  \<^verbatim>\<open>UnmarshalTypeError\<close>.
\<close>

definition unmarshal_empty_struct :: "string \<Rightarrow> unit \<Rightarrow> error option \<times> unit" where
  "unmarshal_empty_struct data req =
     (case dropWhile isSpace data of
        [] \<Rightarrow> (Some (Opaque ''unexpected end of JSON input''), req)
      | c # _ \<Rightarrow>
          if c = CHR ''{'' \<or> c = CHR ''n'' then (None, req)
          else (Some (Opaque ''json: cannot unmarshal into Go value of type struct {}''), req))"

section \<open>Reading a response back\<close>

text \<open>
  No function of the repository decodes a \<^verbatim>\<open>Response\<close>; a client does, with
  \<^verbatim>\<open>json.Unmarshal\<close> into the same struct. That decoding is modelled on documents.

  A string read from a document is coerced to well-formed UTF-8: each byte that does not
  begin a well-formed sequence becomes U+FFFD. (The encoder does the same to the strings
  it writes; in the model the document keeps the Go string and the coercion is made
  where the document is read.) \<open>runeLen\<close> is the length of the well-formed sequence at
  the head of a string, 0 when there is none.
\<close>

definition continuation :: "char \<Rightarrow> nat \<Rightarrow> nat \<Rightarrow> bool" where
  "continuation c lo hi \<longleftrightarrow> lo \<le> (of_char c :: nat) \<and> (of_char c :: nat) \<le> hi"

fun runeLen :: "string \<Rightarrow> nat" where
  "runeLen [] = 0"
| "runeLen (c # cs) =
     (let b = (of_char c :: nat)
      in if b < 128 then 1
         else if 194 \<le> b \<and> b \<le> 223 then
           (case cs of c1 # _ \<Rightarrow> if continuation c1 128 191 then 2 else 0 | _ \<Rightarrow> 0)
         else if 224 \<le> b \<and> b \<le> 239 then
           (case cs of
              c1 # c2 # _ \<Rightarrow>
                if continuation c1 (if b = 224 then 160 else 128) (if b = 237 then 159 else 191)
                   \<and> continuation c2 128 191
                then 3 else 0
            | _ \<Rightarrow> 0)
         else if 240 \<le> b \<and> b \<le> 244 then
           (case cs of
              c1 # c2 # c3 # _ \<Rightarrow>
                if continuation c1 (if b = 240 then 144 else 128) (if b = 244 then 143 else 191)
                   \<and> continuation c2 128 191 \<and> continuation c3 128 191
                then 4 else 0
            | _ \<Rightarrow> 0)
         else 0)"

function coerce :: "string \<Rightarrow> string" where
  "coerce s =
     (if s = [] then []
      else if runeLen s = 0 then [CHR 0xEF, CHR 0xBF, CHR 0xBD] @ coerce (tl s)
      else take (runeLen s) s @ coerce (drop (runeLen s) s))"
  by pat_completeness auto
termination
  by (relation "measure length") auto

declare coerce.simps [simp del]

text \<open>
  A value read into a field of type \<^verbatim>\<open>any\<close> becomes a \<^verbatim>\<open>float64\<close>, a string,
  a bool, a \<^verbatim>\<open>[]any\<close>, a \<^verbatim>\<open>map[string]any\<close> or nil. \<open>generic\<close> gives the
  JSON value that this Go value marshals to, which is how the model identifies it, or
  \<open>None\<close> when the decoder fails. A map keeps the last value stored under a name and
  is marshalled with its names in ascending byte order. A number goes through
  \<^verbatim>\<open>strconv.ParseFloat\<close> and back through the encoder of \<^verbatim>\<open>float64\<close>; that
  conversion of a number literal is the parameter \<open>float64\<close>, which gives \<open>None\<close>
  for a literal out of range.
\<close>

fun store :: "string \<Rightarrow> json \<Rightarrow> (string \<times> json) list \<Rightarrow> (string \<times> json) list" where
  "store k x [] = [(k, x)]"
| "store k x ((k', x') # m) = (if k = k' then (k, x) # m else (k', x') # store k x m)"

definition map_members :: "(string \<times> json) list \<Rightarrow> (string \<times> json) list" where
  "map_members ms = sort_key fst (foldl (\<lambda>m (k, x). store k x m) [] ms)"

fun generic :: "(string \<Rightarrow> string option) \<Rightarrow> json \<Rightarrow> json option"
  and generic_elements :: "(string \<Rightarrow> string option) \<Rightarrow> json list \<Rightarrow> json list option"
  and generic_members ::
    "(string \<Rightarrow> string option) \<Rightarrow> (string \<times> json) list \<Rightarrow> (string \<times> json) list option" where
  "generic float64 JNull = Some JNull"
| "generic float64 (JBool b) = Some (JBool b)"
| "generic float64 (JNumber n) = map_option JNumber (float64 n)"
| "generic float64 (JString s) = Some (JString (coerce s))"
| "generic float64 (JArray xs) = map_option JArray (generic_elements float64 xs)"
| "generic float64 (JObject ms) =
     map_option (\<lambda>ms'. JObject (map_members ms')) (generic_members float64 ms)"
| "generic_elements float64 [] = Some []"
| "generic_elements float64 (x # xs) =
     (case generic float64 x of
        None \<Rightarrow> None
      | Some y \<Rightarrow> map_option ((#) y) (generic_elements float64 xs))"
| "generic_members float64 [] = Some []"
| "generic_members float64 ((k, x) # ms) =
     (case generic float64 x of
        None \<Rightarrow> None
      | Some y \<Rightarrow> map_option ((#) (coerce k, y)) (generic_members float64 ms))"







section \<open>What one call writes\<close>

text \<open>
  On a writer whose status line has not gone out, \<^verbatim>\<open>writeJSON\<close> sets the content
  type, fixes the status and appends one document; when the value cannot be marshalled
  the status is fixed all the same and the body is left as it was.
\<close>

lemma writeJSON_started:
  assumes "\<not> wroteHeader w" and "Marshal_Response v = Some doc"
  shows "writeJSON w st v =
           w\<lparr>header := (header w)(''Content-Type'' \<mapsto> [''application/json'']),
             wroteHeader := True, status := st,
             snapHeader := (header w)(''Content-Type'' \<mapsto> [''application/json'']),
             body := body w @ [doc]\<rparr>"
  using assms
  by (simp add: writeJSON_def Header_Set_def WriteHeader_def Encode_def Write_def)

lemma writeJSON_rejected:
  assumes "\<not> wroteHeader w" and "Marshal_Response v = None"
  shows "writeJSON w st v =
           w\<lparr>header := (header w)(''Content-Type'' \<mapsto> [''application/json'']),
             wroteHeader := True, status := st,
             snapHeader := (header w)(''Content-Type'' \<mapsto> [''application/json''])\<rparr>"
  using assms
  by (simp add: writeJSON_def Header_Set_def WriteHeader_def Encode_def Write_def)

lemma Err_started:
  assumes "\<not> wroteHeader w" and "msg \<noteq> []"
  shows "Err w r log op (Some e) msg st =
           Inr (w\<lparr>header := (header w)(''Content-Type'' \<mapsto> [''application/json'']),
                  wroteHeader := True, status := st,
                  snapHeader := (header w)(''Content-Type'' \<mapsto> [''application/json'']),
                  body := body w @ [JObject [(''status'', JString ''Error''),
                                             (''error'', JString msg)]]\<rparr>,
                log @ [\<lparr>Level = LevelError, Msg = msg,
                         Attrs = [(''op'', op), (''err'', error_Error e)]\<rparr>])"
  using assms
  by (simp add: Err_def Header_Set_def WriteHeader_def Encode_def Write_def log_Error_def
        Marshal_Response_def response_Error_def StatusError_def)

lemma Marshal_response_Error:
  "Marshal_Response (response_Error msg) =
     Some (JObject ((''status'', JString ''Error'')
             # (if msg = [] then [] else [(''error'', JString msg)])))"
  by (simp add: Marshal_Response_def response_Error_def StatusError_def)

lemma Marshal_DataWithError:
  "Marshal_Response (DataWithError msg (Marshals d)) =
     Some (JObject ((''status'', JString ''Error'')
             # (if msg = [] then [] else [(''error'', JString msg)]) @ [(''data'', d)]))"
  by (simp add: Marshal_Response_def DataWithError_def StatusError_def)

lemma Marshal_OK: "Marshal_Response OK = Some (JObject [(''status'', JString ''OK'')])"
  by (simp add: Marshal_Response_def OK_def StatusOK_def)

lemma Marshal_DataOK:
  "Marshal_Response (DataOK data) =
     (case data of
        nil \<Rightarrow> Some (JObject [(''status'', JString ''OK'')])
      | Marshals d \<Rightarrow> Some (JObject [(''status'', JString ''OK''), (''data'', d)])
      | Unsupported \<Rightarrow> None)"
  by (cases data) (simp_all add: Marshal_Response_def DataOK_def StatusOK_def)




lemma Marshal_DataWithError_Unsupported:
  "Marshal_Response (DataWithError msg Unsupported) = None"
  by (simp add: Marshal_Response_def DataWithError_def)

lemma WriteHTTPError_pointer:
  "WriteHTTPError w log op (Some (PtrHTTPError h)) =
     Inr (writeJSON w (Code h)
            (if HTTPError.Data h \<noteq> nil
             then DataWithError (Message h) (HTTPError.Data h)
             else response_Error (Message h)),
          log @ [\<lparr>Level = LevelError, Msg = ''handled error'',
                   Attrs = [(''op'', op), (''err'', Message h)]\<rparr>])"
  by (simp add: WriteHTTPError_def errors_As_def log_Error_def HTTPError_Error_def)

lemma Err_log:
  "(case Err w r log op (Some e) msg st of
      Inl p \<Rightarrow> None
    | Inr (w', log') \<Rightarrow> Some log') =
   Some (log @ [\<lparr>Level = LevelError, Msg = msg,
                   Attrs = [(''op'', op), (''err'', error_Error e)]\<rparr>])"
  by (simp add: Err_def log_Error_def split: prod.splits)

section \<open>Unclassified errors\<close>

text \<open>
  C1. For every error that \<^verbatim>\<open>errors.As\<close> does not recognise as a
  \<^verbatim>\<open>*apperr.HTTPError\<close>, \<^verbatim>\<open>WriteHTTPError\<close> returns, having written status 500
  and the body \<^verbatim>\<open>{"status":"Error","error":"internal server error"}\<close>; for two such
  errors the writer ends in the same state, so nothing of the error's own text reaches the
  client.
\<close>

theorem WriteHTTPError_unclassified:
  assumes "errors_As (Some e1) = None" and "errors_As (Some e2) = None"
    and "\<not> wroteHeader w"
  shows "case WriteHTTPError w log op (Some e1) of
           Inl p \<Rightarrow> False
         | Inr (w1, log1) \<Rightarrow>
             status w1 = 500 \<and>
             body w1 = body w @ [JObject [(''status'', JString ''Error''),
                                          (''error'', JString ''internal server error'')]] \<and>
             (case WriteHTTPError w log op (Some e2) of
                Inl p \<Rightarrow> False
              | Inr (w2, log2) \<Rightarrow> w2 = w1)"
proof -
  have doc: "Marshal_Response (response_Error ''internal server error'') =
               Some (JObject [(''status'', JString ''Error''),
                              (''error'', JString ''internal server error'')])"
    by (simp add: Marshal_response_Error)
  have "WriteHTTPError w log op (Some e) =
          Inr (writeJSON w 500 (response_Error ''internal server error''),
               log_Error log ''internal error'' [(''op'', op), (''err'', error_Error e)])"
    if "errors_As (Some e) = None" for e
    using that by (simp add: WriteHTTPError_def http_StatusInternalServerError_def)
  with assms(1,2) show ?thesis
    by (simp add: writeJSON_started [OF assms(3) doc])
qed

theorem WriteHTTPError_unclassified_witness:
  "errors_As (Some (Opaque ''dial tcp 10.0.0.5:5432: connection refused'')) = None \<and>
   errors_As (Some (Wrapped ''lookup failed'' (ValHTTPError (New 404 ''user not found'')))) = None \<and>
   \<not> wroteHeader NewRecorder \<and>
   (case WriteHTTPError NewRecorder [] ''handler.GetUser''
           (Some (Opaque ''dial tcp 10.0.0.5:5432: connection refused'')) of
      Inl p \<Rightarrow> False
    | Inr (w1, log1) \<Rightarrow>
        status w1 = 500 \<and>
        body w1 = [JObject [(''status'', JString ''Error''),
                            (''error'', JString ''internal server error'')]] \<and>
        (case WriteHTTPError NewRecorder [] ''handler.GetUser''
                (Some (Wrapped ''lookup failed'' (ValHTTPError (New 404 ''user not found'')))) of
           Inl p \<Rightarrow> False
         | Inr (w2, log2) \<Rightarrow> w2 = w1))"
proof -
  have h1: "errors_As (Some (Opaque ''dial tcp 10.0.0.5:5432: connection refused'')) = None"
    by (simp add: errors_As_def)
  have h2: "errors_As (Some (Wrapped ''lookup failed''
              (ValHTTPError (New 404 ''user not found'')))) = None"
    by (simp add: errors_As_def)
  have h3: "\<not> wroteHeader NewRecorder"
    by (simp add: NewRecorder_def)
  have "body NewRecorder = []"
    by (simp add: NewRecorder_def)
  with WriteHTTPError_unclassified [OF h1 h2 h3, where log = "[]" and op = "''handler.GetUser''"] h1 h2 h3
  show ?thesis by (simp split: sum.splits prod.splits)
qed

section \<open>Classified errors\<close>

text \<open>
  C2, as the code has it. For a \<^verbatim>\<open>*HTTPError\<close> made by \<^verbatim>\<open>New(S, M)\<close>,
  \<^verbatim>\<open>WriteHTTPError\<close> returns, having written status \<open>S\<close> and, when \<open>M\<close> is not
  empty, the body \<^verbatim>\<open>{"status":"Error","error":M}\<close>. When \<open>M\<close> is empty the tag
  \<^verbatim>\<open>omitempty\<close> drops the member and the body is \<^verbatim>\<open>{"status":"Error"}\<close>.
\<close>

theorem WriteHTTPError_New:
  assumes "\<not> wroteHeader w"
  shows "case WriteHTTPError w log op (Some (PtrHTTPError (New S M))) of
           Inl p \<Rightarrow> False
         | Inr (w', log') \<Rightarrow>
             status w' = S \<and>
             body w' = body w @
               (if M = [] then [JObject [(''status'', JString ''Error'')]]
                else [JObject [(''status'', JString ''Error''), (''error'', JString M)]])"
proof -
  have "WriteHTTPError w log op (Some (PtrHTTPError (New S M))) =
          Inr (writeJSON w S (response_Error M),
               log @ [\<lparr>Level = LevelError, Msg = ''handled error'',
                        Attrs = [(''op'', op), (''err'', M)]\<rparr>])"
    by (simp add: WriteHTTPError_pointer New_def)
  then show ?thesis
    by (simp add: writeJSON_started [OF assms Marshal_response_Error])
qed

theorem WriteHTTPError_New_witness:
  "\<not> wroteHeader NewRecorder \<and>
   (case WriteHTTPError NewRecorder [] ''handler.GetUser''
           (Some (PtrHTTPError (New 404 ''user not found''))) of
      Inl p \<Rightarrow> False
    | Inr (w', log') \<Rightarrow>
        status w' = 404 \<and>
        body w' = [JObject [(''status'', JString ''Error''),
                            (''error'', JString ''user not found'')]])"
proof -
  have h: "\<not> wroteHeader NewRecorder"
    by (simp add: NewRecorder_def)
  have "body NewRecorder = []"
    by (simp add: NewRecorder_def)
  with WriteHTTPError_New [OF h, where log = "[]" and op = "''handler.GetUser''" and S = 404
         and M = "''user not found''"] h
  show ?thesis by (simp split: sum.splits prod.splits)
qed

text \<open>
  C2 as the specification states it fails for the empty message: the body written for
  \<^verbatim>\<open>New(404, "")\<close> is \<^verbatim>\<open>{"status":"Error"}\<close>, not
  \<^verbatim>\<open>{"status":"Error","error":""}\<close>.
\<close>

theorem WriteHTTPError_New_empty_message:
  "(case WriteHTTPError NewRecorder [] ''handler.GetUser'' (Some (PtrHTTPError (New 404 []))) of
      Inl p \<Rightarrow> False
    | Inr (w', log') \<Rightarrow>
        status w' = 404 \<and> body w' = [JObject [(''status'', JString ''Error'')]]) \<and>
   \<not> (case WriteHTTPError NewRecorder [] ''handler.GetUser'' (Some (PtrHTTPError (New 404 []))) of
      Inl p \<Rightarrow> False
    | Inr (w', log') \<Rightarrow>
        status w' = 404 \<and>
        body w' = [JObject [(''status'', JString ''Error''), (''error'', JString [])]])"
  by (simp add: WriteHTTPError_pointer New_def writeJSON_def Header_Set_def WriteHeader_def
        Encode_def Write_def Marshal_response_Error NewRecorder_def)

text \<open>
  C3, as the code has it. For a \<^verbatim>\<open>*HTTPError\<close> made by
  \<^verbatim>\<open>NewWithData(S, M, D)\<close> with a payload \<open>D\<close> that is not nil and that
  \<^verbatim>\<open>encoding/json\<close> marshals to \<open>d\<close>, \<^verbatim>\<open>WriteHTTPError\<close> returns, having
  written status \<open>S\<close> and, when \<open>M\<close> is not empty, the body
  \<^verbatim>\<open>{"status":"Error","error":M,"data":d}\<close>; when \<open>M\<close> is empty the member
  \<^verbatim>\<open>error\<close> is dropped. For a payload that cannot be marshalled the status is
  written and the body stays as it was.
\<close>

theorem WriteHTTPError_NewWithData:
  assumes "\<not> wroteHeader w"
  shows "(case WriteHTTPError w log op (Some (PtrHTTPError (NewWithData S M (Marshals d)))) of
            Inl p \<Rightarrow> False
          | Inr (w', log') \<Rightarrow>
              status w' = S \<and>
              body w' = body w @
                (if M = [] then [JObject [(''status'', JString ''Error''), (''data'', d)]]
                 else [JObject [(''status'', JString ''Error''), (''error'', JString M),
                                (''data'', d)]])) \<and>
         (case WriteHTTPError w log op (Some (PtrHTTPError (NewWithData S M Unsupported))) of
            Inl p \<Rightarrow> False
          | Inr (w', log') \<Rightarrow> status w' = S \<and> body w' = body w)"
proof -
  have "WriteHTTPError w log op (Some (PtrHTTPError (NewWithData S M D))) =
          Inr (writeJSON w S (DataWithError M D),
               log @ [\<lparr>Level = LevelError, Msg = ''handled error'',
                        Attrs = [(''op'', op), (''err'', M)]\<rparr>])"
    if "D \<noteq> nil" for D
    using that by (simp add: WriteHTTPError_pointer NewWithData_def)
  then show ?thesis
    by (simp add: writeJSON_started [OF assms Marshal_DataWithError]
          writeJSON_rejected [OF assms Marshal_DataWithError_Unsupported])
qed

theorem WriteHTTPError_NewWithData_witness:
  "\<not> wroteHeader NewRecorder \<and>
   (case WriteHTTPError NewRecorder [] ''handler.ProcessBatch''
           (Some (PtrHTTPError (NewWithData 409 ''partial failure''
              (Marshals (JArray [JString ''item-1'', JString ''item-7'']))))) of
      Inl p \<Rightarrow> False
    | Inr (w', log') \<Rightarrow>
        status w' = 409 \<and>
        body w' = [JObject [(''status'', JString ''Error''),
                            (''error'', JString ''partial failure''),
                            (''data'', JArray [JString ''item-1'', JString ''item-7''])]]) \<and>
   (case WriteHTTPError NewRecorder [] ''handler.ProcessBatch''
           (Some (PtrHTTPError (NewWithData 409 ''partial failure'' Unsupported))) of
      Inl p \<Rightarrow> False
    | Inr (w', log') \<Rightarrow> status w' = 409 \<and> body w' = [])"
proof -
  have h: "\<not> wroteHeader NewRecorder"
    by (simp add: NewRecorder_def)
  have "body NewRecorder = []"
    by (simp add: NewRecorder_def)
  with WriteHTTPError_NewWithData [OF h, where log = "[]" and op = "''handler.ProcessBatch''"
         and S = 409 and M = "''partial failure''"
         and d = "JArray [JString ''item-1'', JString ''item-7'']"] h
  show ?thesis by (simp split: sum.splits prod.splits)
qed

text \<open>
  C3 as the specification states it fails for the empty message: the body written for
  \<^verbatim>\<open>NewWithData(409, "", D)\<close> with \<open>D\<close> an empty list has no member
  \<^verbatim>\<open>error\<close>.
\<close>

theorem WriteHTTPError_NewWithData_empty_message:
  "(case WriteHTTPError NewRecorder [] ''handler.ProcessBatch''
           (Some (PtrHTTPError (NewWithData 409 [] (Marshals (JArray []))))) of
      Inl p \<Rightarrow> False
    | Inr (w', log') \<Rightarrow>
        status w' = 409 \<and>
        body w' = [JObject [(''status'', JString ''Error''), (''data'', JArray [])]]) \<and>
   \<not> (case WriteHTTPError NewRecorder [] ''handler.ProcessBatch''
           (Some (PtrHTTPError (NewWithData 409 [] (Marshals (JArray []))))) of
      Inl p \<Rightarrow> False
    | Inr (w', log') \<Rightarrow>
        status w' = 409 \<and>
        body w' = [JObject [(''status'', JString ''Error''), (''error'', JString []),
                            (''data'', JArray [])]])"
  by (simp add: WriteHTTPError_pointer NewWithData_def writeJSON_def Header_Set_def
        WriteHeader_def Encode_def Write_def Marshal_DataWithError NewRecorder_def)

text \<open>
  C10, as the code has it. \<^verbatim>\<open>NewWithData(S, M, nil)\<close> is answered exactly as
  \<^verbatim>\<open>New(S, M)\<close> is, log record included: status \<open>S\<close> and a body with no member
  \<^verbatim>\<open>data\<close>, which is \<^verbatim>\<open>{"status":"Error","error":M}\<close> when \<open>M\<close> is not empty
  and \<^verbatim>\<open>{"status":"Error"}\<close> when it is.
\<close>

theorem WriteHTTPError_NewWithData_nil:
  assumes "\<not> wroteHeader w"
  shows "WriteHTTPError w log op (Some (PtrHTTPError (NewWithData S M nil))) =
           WriteHTTPError w log op (Some (PtrHTTPError (New S M))) \<and>
         (case WriteHTTPError w log op (Some (PtrHTTPError (NewWithData S M nil))) of
            Inl p \<Rightarrow> False
          | Inr (w', log') \<Rightarrow>
              status w' = S \<and>
              body w' = body w @
                (if M = [] then [JObject [(''status'', JString ''Error'')]]
                 else [JObject [(''status'', JString ''Error''), (''error'', JString M)]]))"
proof -
  have same: "NewWithData S M nil = New S M"
    by (simp add: NewWithData_def New_def)
  have "WriteHTTPError w log op (Some (PtrHTTPError (New S M))) =
          Inr (writeJSON w S (response_Error M),
               log @ [\<lparr>Level = LevelError, Msg = ''handled error'',
                        Attrs = [(''op'', op), (''err'', M)]\<rparr>])"
    by (simp add: WriteHTTPError_pointer New_def)
  with same show ?thesis
    by (simp add: writeJSON_started [OF assms Marshal_response_Error])
qed

theorem WriteHTTPError_NewWithData_nil_witness:
  "\<not> wroteHeader NewRecorder \<and>
   WriteHTTPError NewRecorder [] ''handler.CreateUser''
       (Some (PtrHTTPError (NewWithData 400 ''user ID required'' nil))) =
     WriteHTTPError NewRecorder [] ''handler.CreateUser''
       (Some (PtrHTTPError (New 400 ''user ID required''))) \<and>
   (case WriteHTTPError NewRecorder [] ''handler.CreateUser''
           (Some (PtrHTTPError (NewWithData 400 ''user ID required'' nil))) of
      Inl p \<Rightarrow> False
    | Inr (w', log') \<Rightarrow>
        status w' = 400 \<and>
        body w' = [JObject [(''status'', JString ''Error''),
                            (''error'', JString ''user ID required'')]])"
proof -
  have h: "\<not> wroteHeader NewRecorder"
    by (simp add: NewRecorder_def)
  have "body NewRecorder = []"
    by (simp add: NewRecorder_def)
  with WriteHTTPError_NewWithData_nil [OF h, where log = "[]" and op = "''handler.CreateUser''"
         and S = 400 and M = "''user ID required''"] h
  show ?thesis by (simp split: sum.splits prod.splits)
qed

text \<open>
  C10 as stated fails for the empty message: the body written for
  \<^verbatim>\<open>NewWithData(400, "", nil)\<close> is \<^verbatim>\<open>{"status":"Error"}\<close>, with no member
  \<^verbatim>\<open>error\<close>.
\<close>

theorem WriteHTTPError_NewWithData_nil_empty_message:
  "(case WriteHTTPError NewRecorder [] ''handler.CreateUser''
           (Some (PtrHTTPError (NewWithData 400 [] nil))) of
      Inl p \<Rightarrow> False
    | Inr (w', log') \<Rightarrow>
        status w' = 400 \<and> body w' = [JObject [(''status'', JString ''Error'')]]) \<and>
   \<not> (case WriteHTTPError NewRecorder [] ''handler.CreateUser''
           (Some (PtrHTTPError (NewWithData 400 [] nil))) of
      Inl p \<Rightarrow> False
    | Inr (w', log') \<Rightarrow>
        status w' = 400 \<and>
        body w' = [JObject [(''status'', JString ''Error''), (''error'', JString [])]])"
  by (simp add: WriteHTTPError_pointer NewWithData_def writeJSON_def Header_Set_def
        WriteHeader_def Encode_def Write_def Marshal_response_Error NewRecorder_def)

section \<open>The constructors of package response\<close>

text \<open>
  C4. In no \<^verbatim>\<open>Response\<close> built by \<^verbatim>\<open>OK\<close>, \<^verbatim>\<open>DataOK\<close>,
  \<^verbatim>\<open>Error\<close> or \<^verbatim>\<open>DataWithError\<close> does the status \<^verbatim>\<open>OK\<close> stand beside a
  non-empty error message, whatever the arguments; and a payload is carried unchanged
  both with the status \<^verbatim>\<open>OK\<close> (\<^verbatim>\<open>DataOK\<close>) and with the status
  \<^verbatim>\<open>Error\<close> (\<^verbatim>\<open>DataWithError\<close>).
\<close>

theorem constructors_status_error:
  "\<not> (Status OK = StatusOK \<and> Error OK \<noteq> []) \<and>
   \<not> (Status (DataOK data) = StatusOK \<and> Error (DataOK data) \<noteq> []) \<and>
   \<not> (Status (response_Error msg) = StatusOK \<and> Error (response_Error msg) \<noteq> []) \<and>
   \<not> (Status (DataWithError msg data) = StatusOK \<and> Error (DataWithError msg data) \<noteq> []) \<and>
   Status (DataOK data) = StatusOK \<and> Response.Data (DataOK data) = data \<and>
   Status (DataWithError msg data) = StatusError \<and>
   Response.Data (DataWithError msg data) = data"
proof -
  have differ: "StatusError \<noteq> StatusOK"
    by (simp add: StatusError_def StatusOK_def)
  have "Error OK = []" and "Error (DataOK data) = []"
    by (simp_all add: OK_def DataOK_def)
  moreover have "Status (response_Error msg) = StatusError"
    and "Status (DataWithError msg data) = StatusError"
    by (simp_all add: response_Error_def DataWithError_def)
  moreover have "Status (DataOK data) = StatusOK" and "Response.Data (DataOK data) = data"
    and "Response.Data (DataWithError msg data) = data"
    by (simp_all add: DataOK_def DataWithError_def)
  ultimately show ?thesis
    using differ by simp
qed

section \<open>Decoding and validating a request\<close>

text \<open>
  Whatever the decoder is, when it returns an error \<^verbatim>\<open>DecodeRequest\<close> answers with
  status 400 and the fixed document and returns the value the decoder left.
\<close>

lemma DecodeRequest_decoder_error:
  assumes "Decode (Body r) zero = (Some e, req)" and "\<not> wroteHeader w"
  shows "case DecodeRequest Decode zero w r log op of
           Inl p \<Rightarrow> False
         | Inr ((v, ok), w', log') \<Rightarrow>
             \<not> ok \<and> v = req \<and> status w' = 400 \<and>
             body w' = body w @ [JObject [(''status'', JString ''Error''),
                                          (''error'', JString ''invalid request payload'')]]"
proof -
  have msg: "''invalid request payload'' \<noteq> []"
    by simp
  show ?thesis
    using assms(1)
    by (simp add: DecodeRequest_def Err_started [OF assms(2) msg] http_StatusBadRequest_def)
qed

lemma readValue_open_brace: "readValue ''{'' = Inl (Opaque ''unexpected EOF'')"
  by code_simp

lemma readValue_array: "readValue ''[]'' = Inr 2"
  by code_simp

lemma readValue_object: "readValue ''{}'' = Inr 2"
  by code_simp

lemma readValue_object_x: "readValue ''{}x'' = Inr 2"
  by code_simp

lemma unmarshal_empty_struct_array:
  "unmarshal_empty_struct ''[]'' () =
     (Some (Opaque ''json: cannot unmarshal into Go value of type struct {}''), ())"
  by (simp add: unmarshal_empty_struct_def isSpace_def)

lemma unmarshal_empty_struct_object: "unmarshal_empty_struct ''{}'' () = (None, ())"
  by (simp add: unmarshal_empty_struct_def isSpace_def)

subsection \<open>The scanner rejects only what is not well-formed\<close>

lemma stateEndValue_continues:
  assumes "stateEndValue_fn s c = (code, s')" and "code \<noteq> scanEnd" and "code \<noteq> scanError"
  shows "err s' = err s \<and>
         (endTop s' \<longrightarrow> endTop s \<or> code = scanEndObject \<or> code = scanEndArray)"
  using assms
  by (auto simp: stateEndValue_fn_def stateEndTop_fn_def scan_error_def popParseState_def Let_def
      split: list.splits parse.splits if_splits)

lemma pushParseState_continues:
  assumes "pushParseState s p ok = (code, s')" and "code \<noteq> scanError"
  shows "err s' = err s \<and> endTop s' = endTop s"
  using assms
  by (auto simp: pushParseState_def scan_error_def Let_def split: if_splits)

lemma stateBeginValue_continues:
  assumes "stateBeginValue_fn s c = (code, s')" and "code \<noteq> scanError"
  shows "err s' = err s \<and> endTop s' = endTop s"
proof -
  define digit where "digit = (c \<in> set ''123456789'')"
  have "stateBeginValue_fn s c =
     (if isSpace c then (scanSkipSpace, s)
      else if c = CHR ''{'' then
        pushParseState (s\<lparr>step := stateBeginStringOrEmpty\<rparr>) parseObjectKey scanBeginObject
      else if c = CHR ''['' then
        pushParseState (s\<lparr>step := stateBeginValueOrEmpty\<rparr>) parseArrayValue scanBeginArray
      else if c = CHR 0x22 then (scanBeginLiteral, s\<lparr>step := stateInString\<rparr>)
      else if c = CHR ''-'' then (scanBeginLiteral, s\<lparr>step := stateNeg\<rparr>)
      else if c = CHR ''0'' then (scanBeginLiteral, s\<lparr>step := state0\<rparr>)
      else if c = CHR ''t'' then (scanBeginLiteral, s\<lparr>step := stateT\<rparr>)
      else if c = CHR ''f'' then (scanBeginLiteral, s\<lparr>step := stateF\<rparr>)
      else if c = CHR ''n'' then (scanBeginLiteral, s\<lparr>step := stateN\<rparr>)
      else if digit then (scanBeginLiteral, s\<lparr>step := state1\<rparr>)
      else scan_error s ''looking for beginning of value'')"
    unfolding stateBeginValue_fn_def digit_def ..
  with assms show ?thesis
    using pushParseState_continues [of "s\<lparr>step := stateBeginStringOrEmpty\<rparr>" _ _ code s']
      pushParseState_continues [of "s\<lparr>step := stateBeginValueOrEmpty\<rparr>" _ _ code s']
    by (auto simp: scan_error_def split: if_splits)
qed

lemma stateBeginString_continues:
  assumes "stateBeginString_fn s c = (code, s')" and "code \<noteq> scanError"
  shows "err s' = err s \<and> endTop s' = endTop s"
  using assms
  by (auto simp: stateBeginString_fn_def scan_error_def split: if_splits)

lemma state0_continues:
  assumes "state0_fn s c = (code, s')" and "code \<noteq> scanEnd" and "code \<noteq> scanError"
  shows "err s' = err s \<and>
         (endTop s' \<longrightarrow> endTop s \<or> code = scanEndObject \<or> code = scanEndArray)"
  using assms stateEndValue_continues [of s c code s']
  by (auto simp: state0_fn_def split: if_splits)

lemma stateESign_continues:
  assumes "stateESign_fn s c = (code, s')" and "code \<noteq> scanError"
  shows "err s' = err s \<and> endTop s' = endTop s"
  using assms
  by (auto simp: stateESign_fn_def scan_error_def split: if_splits)

lemma expect_continues:
  assumes "expect s c want next context = (code, s')" and "code \<noteq> scanError"
  shows "err s' = err s \<and> endTop s' = endTop s"
  using assms
  by (auto simp: expect_def scan_error_def split: if_splits)

lemma in_string_continues:
  assumes "(if A then (scanContinue, s\<lparr>step := x\<rparr>)
            else if B then (scanContinue, s\<lparr>step := y\<rparr>)
            else if C then scan_error s context
            else (scanContinue, s)) = (code, s')"
    and "code \<noteq> scanError"
  shows "err s' = err s \<and> endTop s' = endTop s"
  using assms by (auto simp: scan_error_def split: if_splits)

lemma two_way_continues:
  assumes "(if A then (scanContinue, s\<lparr>step := x\<rparr>)
            else if B then (scanContinue, s\<lparr>step := y\<rparr>)
            else scan_error s context) = (code, s')"
    and "code \<noteq> scanError"
  shows "err s' = err s \<and> endTop s' = endTop s"
  using assms by (auto simp: scan_error_def split: if_splits)

lemma one_way_continues:
  assumes "(if A then (scanContinue, s\<lparr>step := x\<rparr>) else scan_error s context) = (code, s')"
    and "code \<noteq> scanError"
  shows "err s' = err s \<and> endTop s' = endTop s"
  using assms by (auto simp: scan_error_def split: if_splits)

text \<open>
  A step that answers neither \<open>scanEnd\<close> nor \<open>scanError\<close> records no error, and
  ends the top-level value only by closing an object or an array.
\<close>

lemma step_continues:
  assumes "step_fn s c = (code, s')" and "code \<noteq> scanEnd" and "code \<noteq> scanError"
  shows "err s' = err s \<and>
         (endTop s' \<longrightarrow> endTop s \<or> code = scanEndObject \<or> code = scanEndArray)"
proof (cases "step s")
  case stateBeginValueOrEmpty
  with assms show ?thesis
    using stateEndValue_continues [of s c code s'] stateBeginValue_continues [of s c code s']
    by (auto simp: step_fn_def split: if_splits)
next
  case stateBeginValue
  with assms show ?thesis
    using stateBeginValue_continues [of s c code s'] by (simp add: step_fn_def)
next
  case stateBeginStringOrEmpty
  with assms show ?thesis
    using stateEndValue_continues
            [of "s\<lparr>parseState := parseObjectValue # tl (parseState s)\<rparr>" c code s']
          stateBeginString_continues [of s c code s']
    by (auto simp: step_fn_def split: if_splits)
next
  case stateBeginString
  with assms show ?thesis
    using stateBeginString_continues [of s c code s'] by (simp add: step_fn_def)
next
  case stateEndValue
  with assms show ?thesis
    using stateEndValue_continues [of s c code s'] by (simp add: step_fn_def)
next
  case stateEndTop
  with assms show ?thesis
    by (auto simp: step_fn_def stateEndTop_fn_def split: if_splits)
next
  case stateInString
  with assms show ?thesis
    using in_string_continues [where s = s and code = code and s' = s'] by (simp add: step_fn_def)
next
  case stateInStringEsc
  with assms show ?thesis
    using two_way_continues [where s = s and code = code and s' = s'] by (simp add: step_fn_def del: list.set)
next
  case stateInStringEscU
  with assms show ?thesis
    using one_way_continues [where s = s and code = code and s' = s'] by (simp add: step_fn_def)
next
  case stateInStringEscU1
  with assms show ?thesis
    using one_way_continues [where s = s and code = code and s' = s'] by (simp add: step_fn_def)
next
  case stateInStringEscU12
  with assms show ?thesis
    using one_way_continues [where s = s and code = code and s' = s'] by (simp add: step_fn_def)
next
  case stateInStringEscU123
  with assms show ?thesis
    using one_way_continues [where s = s and code = code and s' = s'] by (simp add: step_fn_def)
next
  case stateNeg
  with assms show ?thesis
    using two_way_continues [where s = s and code = code and s' = s'] by (simp add: step_fn_def del: list.set)
next
  case state1
  with assms show ?thesis
    using state0_continues [of s c code s'] by (auto simp: step_fn_def split: if_splits)
next
  case state0
  with assms show ?thesis
    using state0_continues [of s c code s'] by (simp add: step_fn_def)
next
  case stateDot
  with assms show ?thesis
    using one_way_continues [where s = s and code = code and s' = s'] by (simp add: step_fn_def)
next
  case stateDot0
  with assms show ?thesis
    using stateEndValue_continues [of s c code s'] by (auto simp: step_fn_def split: if_splits)
next
  case stateE
  with assms show ?thesis
    using stateESign_continues [of s c code s'] by (auto simp: step_fn_def split: if_splits)
next
  case stateESign
  with assms show ?thesis
    using stateESign_continues [of s c code s'] by (simp add: step_fn_def)
next
  case stateE0
  with assms show ?thesis
    using stateEndValue_continues [of s c code s'] by (auto simp: step_fn_def split: if_splits)
next
  case stateError
  with assms show ?thesis
    by (simp add: step_fn_def)
qed (use assms expect_continues [where s = s and c = c and code = code and s' = s'] in \<open>simp_all add: step_fn_def\<close>)

lemmas scanner_defs = step_fn_def stateEndValue_fn_def stateEndTop_fn_def stateBeginValue_fn_def
  stateBeginString_fn_def state0_fn_def stateESign_fn_def expect_def scan_error_def
  pushParseState_def popParseState_def

text \<open>Fed a space, a scanner ends the top-level value only by answering \<open>scanEnd\<close>.\<close>

lemma space_ends:
  assumes "\<not> endTop s" and "endTop (snd (step_fn s CHR '' ''))"
  shows "fst (step_fn s CHR '' '') = scanEnd"
  using assms
  by (simp add: scanner_defs isSpace_def isdigit_def ishex_def Let_def
      split: step.splits list.splits parse.splits if_splits)

text \<open>
  After the byte that closes an object or an array, either the top-level value has ended
  and \<^verbatim>\<open>readValue\<close> stops, or the scanner is left as it is by the space
  \<^verbatim>\<open>readValue\<close> feeds it.
\<close>

lemma step_closes:
  assumes "step_fn s c = (code, s')" and "code = scanEndObject \<or> code = scanEndArray"
    and "\<not> endTop s"
  shows "(endTop s' \<and> fst (stateEndValue_fn s' CHR '' '') = scanEnd) \<or>
         (\<not> endTop s' \<and> stateEndValue_fn s' CHR '' '' = (scanSkipSpace, s'))"
  using assms
  by (auto simp: scanner_defs isSpace_def isdigit_def ishex_def Let_def
      split: step.splits list.splits parse.splits if_splits)

text \<open>
  Where \<^verbatim>\<open>checkValid\<close> accepts the rest of the input, \<^verbatim>\<open>readValue\<close> finds a
  value in it.
\<close>

lemma checkValid_scanValue:
  assumes "checkValid s cs" and "\<not> endTop s" and "err s = None"
  shows "\<exists>n. scanValue buf s i cs = Inr n"
  using assms
proof (induction cs arbitrary: s i)
  case Nil
  then have "endTop (snd (step_fn s CHR '' ''))"
    by (simp add: eof_def split: if_splits)
  with Nil.prems(2) have "fst (step_fn s CHR '' '') = scanEnd"
    by (rule space_ends)
  then show ?case
    by simp
next
  case (Cons c cs)
  obtain code s' where st: "step_fn s c = (code, s')"
    by (cases "step_fn s c")
  with Cons.prems(1) have ne: "code \<noteq> scanError" and cv: "checkValid s' cs"
    by (auto split: scan.splits)
  show ?case
  proof (cases "code = scanEnd")
    case True
    with st show ?thesis
      by simp
  next
    case False
    from step_continues [OF st False ne] Cons.prems(2,3)
    have e: "err s' = None"
      and t: "endTop s' \<longrightarrow> code = scanEndObject \<or> code = scanEndArray"
      by auto
    show ?thesis
    proof (cases "code = scanEndObject \<or> code = scanEndArray")
      case True
      from step_closes [OF st True Cons.prems(2)] show ?thesis
      proof
        assume "endTop s' \<and> fst (stateEndValue_fn s' CHR '' '') = scanEnd"
        with st True show ?thesis
          by (auto split: prod.splits)
      next
        assume a: "\<not> endTop s' \<and> stateEndValue_fn s' CHR '' '' = (scanSkipSpace, s')"
        with Cons.IH [OF cv _ e, of "i + 1"] obtain n where "scanValue buf s' (i + 1) cs = Inr n"
          by auto
        with a st True show ?thesis
          by auto
      qed
    next
      case other: False
      with t have "\<not> endTop s'"
        by simp
      with Cons.IH [OF cv _ e, of "i + 1"] obtain n where "scanValue buf s' (i + 1) cs = Inr n"
        by auto
      with st other False ne show ?thesis
        by (cases code) simp_all
    qed
  qed
qed

text \<open>A body in which the decoder finds no first value is not well-formed JSON.\<close>

lemma readValue_error_not_Valid:
  assumes "readValue buf = Inl e"
  shows "\<not> Valid buf"
proof
  assume "Valid buf"
  then have "checkValid reset buf"
    by (simp add: Valid_def)
  moreover have "\<not> endTop reset" and "err reset = None"
    by (simp_all add: reset_def)
  ultimately obtain n where "scanValue buf reset 0 buf = Inr n"
    using checkValid_scanValue by blast
  with assms show False
    by (simp add: readValue_def)
qed

subsection \<open>What DecodeRequest does with the decoder's answer\<close>

text \<open>
  C5, as the code has it. \<^verbatim>\<open>DecodeRequest\<close> rejects a body exactly when
  \<^verbatim>\<open>Decoder.Decode\<close> returns an error: when the scanner finds no complete JSON value
  at the start of the body (such a body is never well-formed JSON), or when that value
  cannot be unmarshalled into \<^verbatim>\<open>T\<close>. It then returns with \<open>ok\<close> false,
  having written status 400 and the body
  \<^verbatim>\<open>{"status":"Error","error":"invalid request payload"}\<close>. When the first value of
  the body is well-formed and fits \<^verbatim>\<open>T\<close>, the body is accepted whatever bytes follow
  that value: \<open>ok\<close> is true and nothing is written or logged.
\<close>

theorem DecodeRequest_json_Decode:
  assumes "\<not> wroteHeader w"
  shows "(readValue (Body r) = Inl e \<longrightarrow>
            \<not> Valid (Body r) \<and>
            (case DecodeRequest (json_Decode unmarshal) zero w r log op of
               Inl p \<Rightarrow> False
             | Inr ((v, ok), w', log') \<Rightarrow>
                 \<not> ok \<and> v = zero \<and> status w' = 400 \<and>
                 body w' = body w @
                   [JObject [(''status'', JString ''Error''),
                             (''error'', JString ''invalid request payload'')]])) \<and>
         (readValue (Body r) = Inr n \<and> unmarshal (take n (Body r)) zero = (Some e, req) \<longrightarrow>
            (case DecodeRequest (json_Decode unmarshal) zero w r log op of
               Inl p \<Rightarrow> False
             | Inr ((v, ok), w', log') \<Rightarrow>
                 \<not> ok \<and> v = req \<and> status w' = 400 \<and>
                 body w' = body w @
                   [JObject [(''status'', JString ''Error''),
                             (''error'', JString ''invalid request payload'')]])) \<and>
         (readValue (Body r) = Inr n \<and> unmarshal (take n (Body r)) zero = (None, req) \<longrightarrow>
            DecodeRequest (json_Decode unmarshal) zero w r log op = Inr ((req, True), w, log))"
proof (intro conjI impI)
  assume "readValue (Body r) = Inl e"
  then show "\<not> Valid (Body r)"
    by (rule readValue_error_not_Valid)
next
  assume "readValue (Body r) = Inl e"
  then have "json_Decode unmarshal (Body r) zero = (Some e, zero)"
    by (simp add: json_Decode_def)
  then show "case DecodeRequest (json_Decode unmarshal) zero w r log op of
        Inl p \<Rightarrow> False
      | Inr ((v, ok), w', log') \<Rightarrow>
          \<not> ok \<and> v = zero \<and> status w' = 400 \<and>
          body w' = body w @
            [JObject [(''status'', JString ''Error''),
                      (''error'', JString ''invalid request payload'')]]"
    by (rule DecodeRequest_decoder_error [OF _ assms])
next
  assume "readValue (Body r) = Inr n \<and> unmarshal (take n (Body r)) zero = (Some e, req)"
  then have "json_Decode unmarshal (Body r) zero = (Some e, req)"
    by (simp add: json_Decode_def)
  then show "case DecodeRequest (json_Decode unmarshal) zero w r log op of
        Inl p \<Rightarrow> False
      | Inr ((v, ok), w', log') \<Rightarrow>
          \<not> ok \<and> v = req \<and> status w' = 400 \<and>
          body w' = body w @
            [JObject [(''status'', JString ''Error''),
                      (''error'', JString ''invalid request payload'')]]"
    by (rule DecodeRequest_decoder_error [OF _ assms])
next
  assume "readValue (Body r) = Inr n \<and> unmarshal (take n (Body r)) zero = (None, req)"
  then have "json_Decode unmarshal (Body r) zero = (None, req)"
    by (simp add: json_Decode_def)
  then show "DecodeRequest (json_Decode unmarshal) zero w r log op = Inr ((req, True), w, log)"
    by (simp add: DecodeRequest_def)
qed

theorem DecodeRequest_json_Decode_witness:
  "\<not> wroteHeader NewRecorder \<and>
   readValue ''{'' = Inl (Opaque ''unexpected EOF'') \<and>
   (case DecodeRequest (json_Decode unmarshal_empty_struct) () NewRecorder \<lparr>Body = ''{''\<rparr> []
           ''handler.Ping'' of
      Inl p \<Rightarrow> False
    | Inr ((v, ok), w', log') \<Rightarrow>
        \<not> ok \<and> status w' = 400 \<and>
        body w' = [JObject [(''status'', JString ''Error''),
                            (''error'', JString ''invalid request payload'')]]) \<and>
   readValue ''[]'' = Inr 2 \<and>
   (case DecodeRequest (json_Decode unmarshal_empty_struct) () NewRecorder \<lparr>Body = ''[]''\<rparr> []
           ''handler.Ping'' of
      Inl p \<Rightarrow> False
    | Inr ((v, ok), w', log') \<Rightarrow>
        \<not> ok \<and> status w' = 400 \<and>
        body w' = [JObject [(''status'', JString ''Error''),
                            (''error'', JString ''invalid request payload'')]]) \<and>
   readValue ''{}'' = Inr 2 \<and>
   DecodeRequest (json_Decode unmarshal_empty_struct) () NewRecorder \<lparr>Body = ''{}''\<rparr> []
       ''handler.Ping''
     = Inr (((), True), NewRecorder, [])"
proof -
  have h: "\<not> wroteHeader NewRecorder"
    by (simp add: NewRecorder_def)
  have fresh: "body NewRecorder = []"
    by (simp add: NewRecorder_def)
  have malformed: "case DecodeRequest (json_Decode unmarshal_empty_struct) () NewRecorder
                       \<lparr>Body = ''{''\<rparr> [] ''handler.Ping'' of
      Inl p \<Rightarrow> False
    | Inr ((v, ok), w', log') \<Rightarrow>
        \<not> ok \<and> status w' = 400 \<and>
        body w' = [JObject [(''status'', JString ''Error''),
                            (''error'', JString ''invalid request payload'')]]"
    using fresh readValue_open_brace
      DecodeRequest_json_Decode [OF h,
        where unmarshal = unmarshal_empty_struct and zero = "()" and r = "\<lparr>Body = ''{''\<rparr>"
          and e = "Opaque ''unexpected EOF''" and log = "[]" and op = "''handler.Ping''",
        THEN conjunct1]
    by (simp split: sum.splits prod.splits)
  have shape: "case DecodeRequest (json_Decode unmarshal_empty_struct) () NewRecorder
                      \<lparr>Body = ''[]''\<rparr> [] ''handler.Ping'' of
      Inl p \<Rightarrow> False
    | Inr ((v, ok), w', log') \<Rightarrow>
        \<not> ok \<and> status w' = 400 \<and>
        body w' = [JObject [(''status'', JString ''Error''),
                            (''error'', JString ''invalid request payload'')]]"
    using fresh readValue_array unmarshal_empty_struct_array
      DecodeRequest_json_Decode [OF h,
        where unmarshal = unmarshal_empty_struct and zero = "()" and r = "\<lparr>Body = ''[]''\<rparr>"
          and n = 2 and req = "()"
          and e = "Opaque ''json: cannot unmarshal into Go value of type struct {}''"
          and log = "[]" and op = "''handler.Ping''",
        THEN conjunct2, THEN conjunct1]
    by (simp split: sum.splits prod.splits)
  have accepted: "DecodeRequest (json_Decode unmarshal_empty_struct) () NewRecorder
                     \<lparr>Body = ''{}''\<rparr> [] ''handler.Ping''
                   = Inr (((), True), NewRecorder, [])"
    using readValue_object unmarshal_empty_struct_object
      DecodeRequest_json_Decode [OF h,
        where unmarshal = unmarshal_empty_struct and zero = "()" and r = "\<lparr>Body = ''{}''\<rparr>"
          and n = 2 and req = "()" and log = "[]" and op = "''handler.Ping''",
        THEN conjunct2, THEN conjunct2]
    by simp
  from h malformed shape accepted readValue_open_brace readValue_array readValue_object
  show ?thesis
    by blast
qed

text \<open>
  C5 as the specification states it fails. The body \<^verbatim>\<open>{}x\<close> is not well-formed
  JSON, and yet \<^verbatim>\<open>DecodeRequest\<close> for the target type \<^verbatim>\<open>struct{}\<close> returns
  \<open>ok\<close> true and leaves writer and logger untouched: the decoder stops after
  \<^verbatim>\<open>{}\<close> and never reads the \<^verbatim>\<open>x\<close>.
\<close>

theorem DecodeRequest_trailing_bytes:
  "\<not> Valid ''{}x'' \<and>
   DecodeRequest (json_Decode unmarshal_empty_struct) () NewRecorder \<lparr>Body = ''{}x''\<rparr> []
       ''handler.Ping''
     = Inr (((), True), NewRecorder, [])"
proof -
  have "\<not> Valid ''{}x''"
    by code_simp
  moreover have "json_Decode unmarshal_empty_struct ''{}x'' () = (None, ())"
    by (simp add: json_Decode_def readValue_object_x unmarshal_empty_struct_object)
  ultimately show ?thesis
    by (simp add: DecodeRequest_def)
qed

text \<open>
  C6. Whenever the validator returns an error for the value, \<^verbatim>\<open>ValidateRequest\<close>
  returns false, having written status 400 and the body
  \<^verbatim>\<open>{"status":"Error","error":"invalid input data"}\<close>; whenever the validator returns
  nil, it returns true and leaves the writer and the logger as they were.
\<close>

theorem ValidateRequest_outcome:
  assumes "\<not> wroteHeader w"
  shows "(validate_Struct req = Some e \<longrightarrow>
            (case ValidateRequest validate_Struct w r log op req of
               Inl p \<Rightarrow> False
             | Inr (ok, w', log') \<Rightarrow>
                 \<not> ok \<and> status w' = 400 \<and>
                 body w' = body w @ [JObject [(''status'', JString ''Error''),
                                              (''error'', JString ''invalid input data'')]])) \<and>
         (validate_Struct req = None \<longrightarrow>
            ValidateRequest validate_Struct w r log op req = Inr (True, w, log))"
proof -
  have msg: "''invalid input data'' \<noteq> []"
    by simp
  show ?thesis
    by (simp add: ValidateRequest_def Err_started [OF assms msg] http_StatusBadRequest_def)
qed

theorem ValidateRequest_outcome_witness:
  "\<not> wroteHeader NewRecorder \<and>
   (case ValidateRequest
           (\<lambda>name. if length name < 2 then Some (Opaque ''Name failed on the min tag'') else None)
           NewRecorder \<lparr>Body = []\<rparr> [] ''handler.CreateUser'' ''A'' of
      Inl p \<Rightarrow> False
    | Inr (ok, w', log') \<Rightarrow>
        \<not> ok \<and> status w' = 400 \<and>
        body w' = [JObject [(''status'', JString ''Error''),
                            (''error'', JString ''invalid input data'')]]) \<and>
   ValidateRequest
       (\<lambda>name. if length name < 2 then Some (Opaque ''Name failed on the min tag'') else None)
       NewRecorder \<lparr>Body = []\<rparr> [] ''handler.CreateUser'' ''Al''
     = Inr (True, NewRecorder, [])"
proof -
  have h: "\<not> wroteHeader NewRecorder"
    by (simp add: NewRecorder_def)
  have "body NewRecorder = []"
    by (simp add: NewRecorder_def)
  with h
    ValidateRequest_outcome [OF h,
      where validate_Struct =
          "\<lambda>name. if length name < 2 then Some (Opaque ''Name failed on the min tag'') else None"
        and req = "''A''" and e = "Opaque ''Name failed on the min tag''"
        and r = "\<lparr>Body = []\<rparr>" and log = "[]" and op = "''handler.CreateUser''"]
    ValidateRequest_outcome [OF h,
      where validate_Struct =
          "\<lambda>name. if length name < 2 then Some (Opaque ''Name failed on the min tag'') else None"
        and req = "''Al''"
        and r = "\<lparr>Body = []\<rparr>" and log = "[]" and op = "''handler.CreateUser''"]
  show ?thesis by (simp split: sum.splits prod.splits)
qed

section \<open>Success responses\<close>

text \<open>
  C7, as the code has it. \<^verbatim>\<open>SendOK\<close> writes status 200 and the body
  \<^verbatim>\<open>{"status":"OK"}\<close>. \<^verbatim>\<open>SendDataOK\<close> writes status 200 and, for data that is
  not nil and that \<^verbatim>\<open>encoding/json\<close> marshals to \<open>d\<close>, the body
  \<^verbatim>\<open>{"status":"OK","data":d}\<close>; for nil data the member \<^verbatim>\<open>data\<close> is dropped
  and the body is \<^verbatim>\<open>{"status":"OK"}\<close>; for data that cannot be marshalled the body
  stays as it was.
\<close>

theorem SendOK_SendDataOK:
  assumes "\<not> wroteHeader w"
  shows "status (fst (SendOK w r log op)) = 200 \<and>
         body (fst (SendOK w r log op)) = body w @ [JObject [(''status'', JString ''OK'')]] \<and>
         status (fst (SendDataOK w r log op data)) = 200 \<and>
         body (fst (SendDataOK w r log op (Marshals d))) =
           body w @ [JObject [(''status'', JString ''OK''), (''data'', d)]] \<and>
         body (fst (SendDataOK w r log op nil)) =
           body w @ [JObject [(''status'', JString ''OK'')]] \<and>
         body (fst (SendDataOK w r log op Unsupported)) = body w"
proof -
  have ok: "writeJSON w 200 OK =
              w\<lparr>header := (header w)(''Content-Type'' \<mapsto> [''application/json'']),
                wroteHeader := True, status := 200,
                snapHeader := (header w)(''Content-Type'' \<mapsto> [''application/json'']),
                body := body w @ [JObject [(''status'', JString ''OK'')]]\<rparr>"
    by (rule writeJSON_started [OF assms Marshal_OK])
  have st: "status (writeJSON w 200 (DataOK data)) = 200"
  proof (cases "Marshal_Response (DataOK data)")
    case None
    then show ?thesis by (simp add: writeJSON_rejected [OF assms])
  next
    case (Some doc)
    then show ?thesis by (simp add: writeJSON_started [OF assms])
  qed
  have d: "body (writeJSON w 200 (DataOK (Marshals d))) =
             body w @ [JObject [(''status'', JString ''OK''), (''data'', d)]]"
    by (simp add: writeJSON_started [OF assms] Marshal_DataOK)
  have n: "body (writeJSON w 200 (DataOK nil)) = body w @ [JObject [(''status'', JString ''OK'')]]"
    by (simp add: writeJSON_started [OF assms] Marshal_DataOK)
  have u: "body (writeJSON w 200 (DataOK Unsupported)) = body w"
    by (simp add: writeJSON_rejected [OF assms] Marshal_DataOK)
  show ?thesis
    by (simp add: SendOK_def SendDataOK_def http_StatusOK_def ok st d n u)
qed

theorem SendOK_SendDataOK_witness:
  "\<not> wroteHeader NewRecorder \<and>
   status (fst (SendOK NewRecorder \<lparr>Body = []\<rparr> [] ''handler.CreateUser'')) = 200 \<and>
   body (fst (SendOK NewRecorder \<lparr>Body = []\<rparr> [] ''handler.CreateUser'')) =
     [JObject [(''status'', JString ''OK'')]] \<and>
   status (fst (SendDataOK NewRecorder \<lparr>Body = []\<rparr> [] ''handler.GetUsers''
                  (Marshals (JArray [JString ''ann'', JString ''bob''])))) = 200 \<and>
   body (fst (SendDataOK NewRecorder \<lparr>Body = []\<rparr> [] ''handler.GetUsers''
                (Marshals (JArray [JString ''ann'', JString ''bob''])))) =
     [JObject [(''status'', JString ''OK''),
               (''data'', JArray [JString ''ann'', JString ''bob''])]]"
proof -
  have h: "\<not> wroteHeader NewRecorder"
    by (simp add: NewRecorder_def)
  have "body NewRecorder = []"
    by (simp add: NewRecorder_def)
  with h
    SendOK_SendDataOK [OF h, where r = "\<lparr>Body = []\<rparr>" and log = "[]"
      and op = "''handler.CreateUser''"]
    SendOK_SendDataOK [OF h, where r = "\<lparr>Body = []\<rparr>" and log = "[]"
      and op = "''handler.GetUsers''"
      and data = "Marshals (JArray [JString ''ann'', JString ''bob''])"
      and d = "JArray [JString ''ann'', JString ''bob'']"]
  show ?thesis by simp
qed

text \<open>
  C7 as the specification states it fails for nil data: \<^verbatim>\<open>SendDataOK\<close> then writes
  \<^verbatim>\<open>{"status":"OK"}\<close> and no member \<^verbatim>\<open>data\<close>.
\<close>

theorem SendDataOK_nil_data:
  "status (fst (SendDataOK NewRecorder \<lparr>Body = []\<rparr> [] ''handler.GetUsers'' nil)) = 200 \<and>
   body (fst (SendDataOK NewRecorder \<lparr>Body = []\<rparr> [] ''handler.GetUsers'' nil)) =
     [JObject [(''status'', JString ''OK'')]] \<and>
   body (fst (SendDataOK NewRecorder \<lparr>Body = []\<rparr> [] ''handler.GetUsers'' nil)) \<noteq>
     [JObject [(''status'', JString ''OK''), (''data'', JNull)]]"
  by (simp add: SendDataOK_def writeJSON_def Header_Set_def WriteHeader_def Encode_def
        Write_def Marshal_DataOK NewRecorder_def http_StatusOK_def)

section \<open>A response read back\<close>







section \<open>Log records of a failure\<close>

text \<open>
  C9, as the code has it. A decoding failure and a validation failure each add two
  records at level error: the helper's own, where the failure is detected, and the one
  \<^verbatim>\<open>response.Err\<close> adds as it writes the response. A classified error and an
  unclassified error each add one record, in \<^verbatim>\<open>WriteHTTPError\<close>.
\<close>

theorem failure_log_records:
  "(Decode (Body r) zero = (Some e, req) \<longrightarrow>
      (case DecodeRequest Decode zero w r log op of
         Inl p \<Rightarrow> False
       | Inr (res, w', log') \<Rightarrow>
           log' = log @
             [\<lparr>Level = LevelError, Msg = ''failed to decode request body'',
                Attrs = [(''op'', op), (''err'', error_Error e)]\<rparr>,
              \<lparr>Level = LevelError, Msg = ''invalid request payload'',
                Attrs = [(''op'', op), (''err'', error_Error e)]\<rparr>])) \<and>
   (validate_Struct x = Some e \<longrightarrow>
      (case ValidateRequest validate_Struct w r log op x of
         Inl p \<Rightarrow> False
       | Inr (ok, w', log') \<Rightarrow>
           log' = log @
             [\<lparr>Level = LevelError, Msg = ''validation failed'',
                Attrs = [(''op'', op), (''err'', error_Error e),
                         (''validation_errors'', error_Error e)]\<rparr>,
              \<lparr>Level = LevelError, Msg = ''invalid input data'',
                Attrs = [(''op'', op), (''err'', error_Error e)]\<rparr>])) \<and>
   (errors_As (Some e) = Some h \<longrightarrow>
      (case WriteHTTPError w log op (Some e) of
         Inl p \<Rightarrow> False
       | Inr (w', log') \<Rightarrow>
           log' = log @
             [\<lparr>Level = LevelError, Msg = ''handled error'',
                Attrs = [(''op'', op), (''err'', Message h)]\<rparr>])) \<and>
   (errors_As (Some e) = None \<longrightarrow>
      (case WriteHTTPError w log op (Some e) of
         Inl p \<Rightarrow> False
       | Inr (w', log') \<Rightarrow>
           log' = log @
             [\<lparr>Level = LevelError, Msg = ''internal error'',
                Attrs = [(''op'', op), (''err'', error_Error e)]\<rparr>]))"
proof (intro conjI impI)
  assume "Decode (Body r) zero = (Some e, req)"
  moreover
  note Err_log [of w r "log @ [\<lparr>Level = LevelError, Msg = ''failed to decode request body'',
                  Attrs = [(''op'', op), (''err'', error_Error e)]\<rparr>]" op e
                  "''invalid request payload''" http_StatusBadRequest]
  ultimately show "case DecodeRequest Decode zero w r log op of
        Inl p \<Rightarrow> False
      | Inr (res, w', log') \<Rightarrow>
          log' = log @
            [\<lparr>Level = LevelError, Msg = ''failed to decode request body'',
               Attrs = [(''op'', op), (''err'', error_Error e)]\<rparr>,
             \<lparr>Level = LevelError, Msg = ''invalid request payload'',
               Attrs = [(''op'', op), (''err'', error_Error e)]\<rparr>]"
    by (simp add: DecodeRequest_def log_Error_def split: sum.splits prod.splits)
next
  assume "validate_Struct x = Some e"
  moreover
  note Err_log [of w r "log @ [\<lparr>Level = LevelError, Msg = ''validation failed'',
                  Attrs = [(''op'', op), (''err'', error_Error e),
                           (''validation_errors'', error_Error e)]\<rparr>]" op e
                  "''invalid input data''" http_StatusBadRequest]
  ultimately show "case ValidateRequest validate_Struct w r log op x of
        Inl p \<Rightarrow> False
      | Inr (ok, w', log') \<Rightarrow>
          log' = log @
            [\<lparr>Level = LevelError, Msg = ''validation failed'',
               Attrs = [(''op'', op), (''err'', error_Error e),
                        (''validation_errors'', error_Error e)]\<rparr>,
             \<lparr>Level = LevelError, Msg = ''invalid input data'',
               Attrs = [(''op'', op), (''err'', error_Error e)]\<rparr>]"
    by (simp add: ValidateRequest_def log_Error_def split: sum.splits prod.splits)
next
  assume "errors_As (Some e) = Some h"
  then show "case WriteHTTPError w log op (Some e) of
        Inl p \<Rightarrow> False
      | Inr (w', log') \<Rightarrow>
          log' = log @
            [\<lparr>Level = LevelError, Msg = ''handled error'',
               Attrs = [(''op'', op), (''err'', Message h)]\<rparr>]"
    by (simp add: WriteHTTPError_def log_Error_def HTTPError_Error_def Let_def)
next
  assume "errors_As (Some e) = None"
  then show "case WriteHTTPError w log op (Some e) of
        Inl p \<Rightarrow> False
      | Inr (w', log') \<Rightarrow>
          log' = log @
            [\<lparr>Level = LevelError, Msg = ''internal error'',
               Attrs = [(''op'', op), (''err'', error_Error e)]\<rparr>]"
    by (simp add: WriteHTTPError_def log_Error_def)
qed

theorem failure_log_records_witness:
  "(case DecodeRequest (\<lambda>b z. (Some (Opaque ''unexpected end of JSON input''), z))
           (([], []) :: string \<times> string) NewRecorder \<lparr>Body = ''{''\<rparr> [] ''handler.CreateUser'' of
      Inl p \<Rightarrow> False
    | Inr (res, w', log') \<Rightarrow>
        log' =
          [\<lparr>Level = LevelError, Msg = ''failed to decode request body'',
             Attrs = [(''op'', ''handler.CreateUser''),
                      (''err'', ''unexpected end of JSON input'')]\<rparr>,
           \<lparr>Level = LevelError, Msg = ''invalid request payload'',
             Attrs = [(''op'', ''handler.CreateUser''),
                      (''err'', ''unexpected end of JSON input'')]\<rparr>]) \<and>
   (case ValidateRequest (\<lambda>name. if length name < 2 then Some (Opaque ''Name: min'') else None)
           NewRecorder \<lparr>Body = []\<rparr> [] ''handler.CreateUser'' ''A'' of
      Inl p \<Rightarrow> False
    | Inr (ok, w', log') \<Rightarrow>
        log' =
          [\<lparr>Level = LevelError, Msg = ''validation failed'',
             Attrs = [(''op'', ''handler.CreateUser''), (''err'', ''Name: min''),
                      (''validation_errors'', ''Name: min'')]\<rparr>,
           \<lparr>Level = LevelError, Msg = ''invalid input data'',
             Attrs = [(''op'', ''handler.CreateUser''), (''err'', ''Name: min'')]\<rparr>]) \<and>
   (case WriteHTTPError NewRecorder [] ''handler.GetUser''
           (Some (Wrapped ''get user: user not found''
                    (PtrHTTPError (New 404 ''user not found'')))) of
      Inl p \<Rightarrow> False
    | Inr (w', log') \<Rightarrow>
        log' =
          [\<lparr>Level = LevelError, Msg = ''handled error'',
             Attrs = [(''op'', ''handler.GetUser''), (''err'', ''user not found'')]\<rparr>]) \<and>
   (case WriteHTTPError NewRecorder [] ''handler.GetUser'' (Some (Opaque ''sql: no rows'')) of
      Inl p \<Rightarrow> False
    | Inr (w', log') \<Rightarrow>
        log' =
          [\<lparr>Level = LevelError, Msg = ''internal error'',
             Attrs = [(''op'', ''handler.GetUser''), (''err'', ''sql: no rows'')]\<rparr>])"
proof -
  have c: "errors_As (Some (Wrapped ''get user: user not found''
             (PtrHTTPError (New 404 ''user not found'')))) = Some (New 404 ''user not found'')"
    by (simp add: errors_As_def)
  have u: "errors_As (Some (Opaque ''sql: no rows'')) = None"
    by (simp add: errors_As_def)
  have m: "Message (New 404 ''user not found'') = ''user not found''"
    by (simp add: New_def)
  have decode: "case DecodeRequest (\<lambda>b z. (Some (Opaque ''unexpected end of JSON input''), z))
           (([], []) :: string \<times> string) NewRecorder \<lparr>Body = ''{''\<rparr> [] ''handler.CreateUser'' of
      Inl p \<Rightarrow> False
    | Inr (res, w', log') \<Rightarrow>
        log' =
          [\<lparr>Level = LevelError, Msg = ''failed to decode request body'',
             Attrs = [(''op'', ''handler.CreateUser''),
                      (''err'', ''unexpected end of JSON input'')]\<rparr>,
           \<lparr>Level = LevelError, Msg = ''invalid request payload'',
             Attrs = [(''op'', ''handler.CreateUser''),
                      (''err'', ''unexpected end of JSON input'')]\<rparr>]"
    using failure_log_records [
      where Decode = "\<lambda>b z. (Some (Opaque ''unexpected end of JSON input''), z)"
        and zero = "([], []) :: string \<times> string" and req = "([], [])"
        and e = "Opaque ''unexpected end of JSON input''"
        and r = "\<lparr>Body = ''{''\<rparr>" and w = NewRecorder and log = "[]"
        and op = "''handler.CreateUser''", THEN conjunct1]
    by (simp split: sum.splits prod.splits)
  have valid: "case ValidateRequest
           (\<lambda>name. if length name < 2 then Some (Opaque ''Name: min'') else None)
           NewRecorder \<lparr>Body = []\<rparr> [] ''handler.CreateUser'' ''A'' of
      Inl p \<Rightarrow> False
    | Inr (ok, w', log') \<Rightarrow>
        log' =
          [\<lparr>Level = LevelError, Msg = ''validation failed'',
             Attrs = [(''op'', ''handler.CreateUser''), (''err'', ''Name: min''),
                      (''validation_errors'', ''Name: min'')]\<rparr>,
           \<lparr>Level = LevelError, Msg = ''invalid input data'',
             Attrs = [(''op'', ''handler.CreateUser''), (''err'', ''Name: min'')]\<rparr>]"
    using failure_log_records [
      where validate_Struct = "\<lambda>name. if length name < 2 then Some (Opaque ''Name: min'') else None"
        and x = "''A''" and e = "Opaque ''Name: min''"
        and r = "\<lparr>Body = []\<rparr>" and w = NewRecorder and log = "[]"
        and op = "''handler.CreateUser''", THEN conjunct2, THEN conjunct1]
    by (simp split: sum.splits prod.splits)
  have classified: "case WriteHTTPError NewRecorder [] ''handler.GetUser''
           (Some (Wrapped ''get user: user not found''
                    (PtrHTTPError (New 404 ''user not found'')))) of
      Inl p \<Rightarrow> False
    | Inr (w', log') \<Rightarrow>
        log' =
          [\<lparr>Level = LevelError, Msg = ''handled error'',
             Attrs = [(''op'', ''handler.GetUser''), (''err'', ''user not found'')]\<rparr>]"
    using c m failure_log_records [
      where e = "Wrapped ''get user: user not found'' (PtrHTTPError (New 404 ''user not found''))"
        and h = "New 404 ''user not found''"
        and w = NewRecorder and log = "[]" and op = "''handler.GetUser''",
      THEN conjunct2, THEN conjunct2, THEN conjunct1]
    by (simp split: sum.splits prod.splits)
  have unclassified: "case WriteHTTPError NewRecorder [] ''handler.GetUser''
           (Some (Opaque ''sql: no rows'')) of
      Inl p \<Rightarrow> False
    | Inr (w', log') \<Rightarrow>
        log' =
          [\<lparr>Level = LevelError, Msg = ''internal error'',
             Attrs = [(''op'', ''handler.GetUser''), (''err'', ''sql: no rows'')]\<rparr>]"
    using u failure_log_records [
      where e = "Opaque ''sql: no rows''"
        and w = NewRecorder and log = "[]" and op = "''handler.GetUser''",
      THEN conjunct2, THEN conjunct2, THEN conjunct2]
    by (simp split: sum.splits prod.splits)
  from decode valid classified unclassified show ?thesis
    by blast
qed

text \<open>
  C9 as the specification states it fails: a decoding failure leaves two records in the
  logger, not one.
\<close>

theorem DecodeRequest_logs_twice:
  "(case DecodeRequest (\<lambda>b z. (Some (Opaque ''unexpected end of JSON input''), z))
           (([], []) :: string \<times> string) NewRecorder \<lparr>Body = ''{''\<rparr> [] ''handler.CreateUser'' of
      Inl p \<Rightarrow> False
    | Inr (res, w', log') \<Rightarrow>
        map Msg log' = [''failed to decode request body'', ''invalid request payload'']) \<and>
   \<not> (case DecodeRequest (\<lambda>b z. (Some (Opaque ''unexpected end of JSON input''), z))
           (([], []) :: string \<times> string) NewRecorder \<lparr>Body = ''{''\<rparr> [] ''handler.CreateUser'' of
      Inl p \<Rightarrow> False
    | Inr (res, w', log') \<Rightarrow> length log' = 1)"
  by (simp add: DecodeRequest_def Err_def log_Error_def Header_Set_def WriteHeader_def
        Encode_def Write_def Marshal_response_Error NewRecorder_def)

end
